theory Spec2Isabelle
  imports Main "HOL-Library.AList" "HOL-Library.Sublist"
begin

section \<open>Symbolic expressions\<close>

text \<open>
  Modelled from the spec: the Symbol graph of pybamm (Scalar, Variable, the arithmetic
  operators, grad, div, average, surf, Broadcast, Concatenation) is not among the source
  files. Following sections 3 and 4.1-4.3 of the specification an expression is an
  immutable tree and two expressions are equal iff they are structurally equal. The
  datatype lists the nodes; a node exists once its constructor has accepted the operands,
  and the constructors, with the domain checks of sections 4.1-4.3, are the functions of
  the section after the next. A Python number that the source hands to an operator or
  stores in a dictionary (\<^verbatim>\<open>0\<close>, \<^verbatim>\<open>1\<close>) is written as the \<open>Scalar\<close> node that pybamm turns it
  into. \<open>Parameter\<close> is a named scalar value of the parameter object and
  \<open>FunctionParameter\<close> a named functional value applied to an expression (section 6).
\<close>

datatype expr =
    Scalar int
  | Parameter string
  | FunctionParameter string expr
  | Variable string "string list"
  | SpatialVariable string "string list"
  | Negate expr
  | Addition expr expr
  | Subtraction expr expr
  | Multiplication expr expr
  | Division expr expr
  | Power expr expr
  | Gradient expr
  | Divergence expr
  | Average expr
  | Surf expr bool
  | Broadcast expr "string list"
  | Concatenation "expr list"

text \<open>
  Modelled from the spec: \<^verbatim>\<open>Symbol.orphans\<close> returns the children of a node, in order and
  unchanged (section 4.2). The source applies it to concatenations and, in
  \<^verbatim>\<open>get_explicit_combined\<close>, to the broadcasts inside one.
\<close>

fun children :: "expr \<Rightarrow> expr list" where
  "children (Scalar v) = []"
| "children (Parameter n) = []"
| "children (FunctionParameter n x) = [x]"
| "children (Variable n d) = []"
| "children (SpatialVariable n d) = []"
| "children (Negate x) = [x]"
| "children (Addition x y) = [x, y]"
| "children (Subtraction x y) = [x, y]"
| "children (Multiplication x y) = [x, y]"
| "children (Division x y) = [x, y]"
| "children (Power x y) = [x, y]"
| "children (Gradient x) = [x]"
| "children (Divergence x) = [x]"
| "children (Average x) = [x]"
| "children (Surf x sd) = [x]"
| "children (Broadcast x d) = [x]"
| "children (Concatenation xs) = xs"

definition orphans :: "expr \<Rightarrow> expr list" where
  "orphans e = children e"

text \<open>
  Modelled from the spec: the domain of an expression (sections 3 and 4.1-4.3): the tags a
  leaf or a broadcast carries, the ordered union of the children's domains for a
  concatenation, the operand's domain for a unary operator, a gradient, a divergence and a
  functional parameter, and the union of the operand domains for a binary operator, which
  is the domain of the operand that has one. Averaging reduces a domain to a point. The
  surface value of a particle-scale expression is domain-less, or lies on the electrode of
  the particle when \<^verbatim>\<open>set_domain\<close> is requested.
\<close>

definition electrode_of_particle :: "string \<Rightarrow> string" where
  "electrode_of_particle d =
     (if d = ''negative particle'' then ''negative electrode''
      else if d = ''positive particle'' then ''positive electrode'' else d)"

fun domain :: "expr \<Rightarrow> string list" where
  "domain (Scalar v) = []"
| "domain (Parameter n) = []"
| "domain (FunctionParameter n x) = domain x"
| "domain (Variable n d) = d"
| "domain (SpatialVariable n d) = d"
| "domain (Negate x) = domain x"
| "domain (Addition x y) = (if domain x = [] then domain y else domain x)"
| "domain (Subtraction x y) = (if domain x = [] then domain y else domain x)"
| "domain (Multiplication x y) = (if domain x = [] then domain y else domain x)"
| "domain (Division x y) = (if domain x = [] then domain y else domain x)"
| "domain (Power x y) = (if domain x = [] then domain y else domain x)"
| "domain (Gradient x) = domain x"
| "domain (Divergence x) = domain x"
| "domain (Average x) = []"
| "domain (Surf x sd) = (if sd then map electrode_of_particle (domain x) else [])"
| "domain (Broadcast x d) = d"
| "domain (Concatenation xs) = concat (map domain xs)"

section \<open>Python values: errors, dictionaries, unpacking\<close>

datatype dict_key = NameKey string | SymbolKey expr

text \<open>
  The exceptions of the source and of section 7 of the specification. \<open>ModelError\<close> is the
  construction error of a merge; it names the field and the offending key.
\<close>

datatype error =
    TypeError string
  | KeyError string
  | ValueError string
  | IndexError string
  | DomainError string
  | ModelError string dict_key

text \<open>
  A Python \<^verbatim>\<open>dict\<close> is an association list in insertion order with distinct keys.
  \<^verbatim>\<open>d[k]\<close> raises KeyError on a missing key; \<^verbatim>\<open>d[k] = v\<close> replaces the value in place or
  appends the pair; \<^verbatim>\<open>d.update(other)\<close> stores the pairs of \<^verbatim>\<open>other\<close> from left to right.
\<close>

type_synonym ('k, 'v) dict = "('k \<times> 'v) list"

definition getitem :: "(string, 'v) dict \<Rightarrow> string \<Rightarrow> error + 'v" where
  "getitem d k = (case map_of d k of None \<Rightarrow> Inl (KeyError k) | Some v \<Rightarrow> Inr v)"

definition setitem :: "('k, 'v) dict \<Rightarrow> 'k \<Rightarrow> 'v \<Rightarrow> ('k, 'v) dict" where
  "setitem d k v = AList.update k v d"

definition dict_update :: "('k, 'v) dict \<Rightarrow> ('k, 'v) dict \<Rightarrow> ('k, 'v) dict" where
  "dict_update d other = fold (\<lambda>(k, v) acc. setitem acc k v) other d"

definition keys :: "('k, 'v) dict \<Rightarrow> 'k set" where
  "keys d = fst ` set d"

text \<open>\<^verbatim>\<open>a, b, c = xs\<close> raises ValueError unless \<^verbatim>\<open>xs\<close> has exactly three items.\<close>

fun unpack3 :: "'a list \<Rightarrow> error + ('a \<times> 'a \<times> 'a)" where
  "unpack3 [a, b, c] = Inr (a, b, c)"
| "unpack3 [] = Inl (ValueError ''not enough values to unpack'')"
| "unpack3 [a] = Inl (ValueError ''not enough values to unpack'')"
| "unpack3 [a, b] = Inl (ValueError ''not enough values to unpack'')"
| "unpack3 (a # b # c # d # xs) = Inl (ValueError ''too many values to unpack'')"

text \<open>\<^verbatim>\<open>xs[i]\<close> for a non-negative literal index raises IndexError out of range.\<close>

definition index :: "'a list \<Rightarrow> nat \<Rightarrow> error + 'a" where
  "index xs i = (if i < length xs then Inr (xs ! i) else Inl (IndexError ''index out of range''))"
text \<open>Statement after statement inside an expression: the first failure is the result.\<close>

definition on_success :: "error + 'a \<Rightarrow> ('a \<Rightarrow> error + 'b) \<Rightarrow> error + 'b" where
  "on_success r f = (case r of Inl e \<Rightarrow> Inl e | Inr x \<Rightarrow> f x)"

section \<open>The constructors of expressions and their domain checks\<close>

text \<open>
  Modelled from the spec: the canonical order of the subdomains of the cell is negative
  electrode, separator, positive electrode (section 3). A cell block is a non-empty run of
  adjacent subdomains in that order. A spatial domain, on which the spatial operators are
  defined, is a single subdomain or such a run (section 4.3).
\<close>

definition domain_rank :: "string \<Rightarrow> nat" where
  "domain_rank d =
     (if d = ''negative electrode'' then 0
      else if d = ''separator'' then 1
      else if d = ''positive electrode'' then 2 else 3)"

definition cell_blocks :: "string list list" where
  "cell_blocks =
     [[''negative electrode''], [''separator''], [''positive electrode''],
      [''negative electrode'', ''separator''], [''separator'', ''positive electrode''],
      [''negative electrode'', ''separator'', ''positive electrode'']]"

definition cell_block :: "string list \<Rightarrow> bool" where
  "cell_block ds = (ds \<in> set cell_blocks)"

definition spatial_domain :: "string list \<Rightarrow> bool" where
  "spatial_domain ds = (length ds = 1 \<or> cell_block ds)"

text \<open>
  Modelled from the spec (section 4.1): an arithmetic operator applied to two expressions
  fails with DomainError if the operand domains are non-empty and not equal, and builds
  the node otherwise. The source writes the operators infix: \<^verbatim>\<open>+\<close>, \<^verbatim>\<open>-\<close>, \<^verbatim>\<open>*\<close>, \<^verbatim>\<open>/\<close>, \<^verbatim>\<open>**\<close>.
  The unary minus builds \<open>Negate\<close> and checks nothing.
\<close>

definition binary_operator :: "(expr \<Rightarrow> expr \<Rightarrow> expr) \<Rightarrow> expr \<Rightarrow> expr \<Rightarrow> error + expr" where
  "binary_operator node left right =
     (if domain left = [] \<or> domain right = [] \<or> domain left = domain right
      then Inr (node left right)
      else Inl (DomainError ''children domains do not match''))"

definition add :: "expr \<Rightarrow> expr \<Rightarrow> error + expr" where
  "add = binary_operator Addition"

definition subtract :: "expr \<Rightarrow> expr \<Rightarrow> error + expr" where
  "subtract = binary_operator Subtraction"

definition multiply :: "expr \<Rightarrow> expr \<Rightarrow> error + expr" where
  "multiply = binary_operator Multiplication"

definition divide :: "expr \<Rightarrow> expr \<Rightarrow> error + expr" where
  "divide = binary_operator Division"

definition power :: "expr \<Rightarrow> expr \<Rightarrow> error + expr" where
  "power = binary_operator Power"

text \<open>
  Modelled from the spec (section 4.2): \<^verbatim>\<open>Broadcast(value, domain)\<close> wraps a domain-less
  expression; a value that has a domain of its own is a domain mismatch.
\<close>

definition broadcast :: "expr \<Rightarrow> string list \<Rightarrow> error + expr" where
  "broadcast v ds =
     (if domain v = [] then Inr (Broadcast v ds)
      else Inl (DomainError ''broadcast of an expression that has a domain''))"

text \<open>
  Modelled from the spec (sections 3 and 4.2): \<^verbatim>\<open>Concatenation(*parts)\<close> requires parts
  that are domain-tagged, whose domains are pairwise disjoint and, when the parts are
  ordered by the canonical order of the subdomains, contiguous; it fails with DomainError
  otherwise. The node holds the parts in canonical order.
\<close>

definition concatenation :: "expr list \<Rightarrow> error + expr" where
  "concatenation parts =
     (if list_ex (\<lambda>p. domain p = []) parts
      then Inl (DomainError ''concatenation of an expression without domain'')
      else (let ordered = sort_key (\<lambda>p. domain_rank (hd (domain p))) parts;
                ds = concat (map domain ordered)
            in if distinct ds \<and> cell_block ds
               then Inr (Concatenation ordered)
               else Inl (DomainError ''concatenation domains overlap or are not contiguous'')))"

text \<open>
  Modelled from the spec (section 4.3): \<^verbatim>\<open>grad\<close> is valid only on an expression whose
  domain is a single subdomain or a concatenation of electrode and separator domains, and
  its result is flux-like over the same domain. An arithmetic combination with a flux is
  a flux. \<^verbatim>\<open>div\<close> consumes a flux-like expression over such a domain.
\<close>

definition grad :: "expr \<Rightarrow> error + expr" where
  "grad e =
     (if spatial_domain (domain e) then Inr (Gradient e)
      else Inl (DomainError ''gradient of an expression without spatial domain''))"

fun flux_like :: "expr \<Rightarrow> bool" where
  "flux_like (Gradient x) = True"
| "flux_like (Negate x) = flux_like x"
| "flux_like (Addition x y) = (flux_like x \<or> flux_like y)"
| "flux_like (Subtraction x y) = (flux_like x \<or> flux_like y)"
| "flux_like (Multiplication x y) = (flux_like x \<or> flux_like y)"
| "flux_like (Division x y) = (flux_like x \<or> flux_like y)"
| "flux_like (Broadcast x d) = flux_like x"
| "flux_like (Concatenation xs) = list_ex flux_like xs"
| "flux_like e = False"

definition div_expr :: "expr \<Rightarrow> error + expr" where
  "div_expr e =
     (if spatial_domain (domain e) \<and> flux_like e then Inr (Divergence e)
      else Inl (DomainError ''divergence of an expression that is not a flux on a spatial domain''))"

text \<open>
  Modelled from the spec (sections 4.3 and 8): \<^verbatim>\<open>average\<close> is defined for any single
  subdomain or concatenation and gives a domain-less expression; the average of a scalar
  constant broadcast over a single subdomain is that constant.
\<close>

fun average_node :: "expr \<Rightarrow> expr" where
  "average_node (Broadcast (Scalar k) [d]) = Scalar k"
| "average_node e = Average e"

definition average :: "expr \<Rightarrow> error + expr" where
  "average e =
     (if spatial_domain (domain e) then Inr (average_node e)
      else Inl (DomainError ''average of an expression without spatial domain''))"

text \<open>
  Modelled from the spec (section 4.3): \<^verbatim>\<open>surf(expr, set_domain)\<close> evaluates a
  particle-scale expression at its outer boundary.
\<close>

definition surf :: "expr \<Rightarrow> bool \<Rightarrow> error + expr" where
  "surf e set_domain =
     (if domain e = [''negative particle''] \<or> domain e = [''positive particle'']
      then Inr (Surf e set_domain)
      else Inl (DomainError ''surface value of an expression that is not on a particle''))"

section \<open>Parameters and submodels\<close>

text \<open>
  Modelled from the spec (section 6): the parameter object (\<^verbatim>\<open>set_of_parameters\<close>,
  \<^verbatim>\<open>pybamm.standard_parameters_lithium_ion\<close>) is an external collaborator that supplies
  named scalar and functional values. The record lists the attributes that the functions
  embedded here read, each by the name of the value: a scalar attribute \<^verbatim>\<open>param.x\<close> is the
  leaf \<open>Parameter\<close> of that name, which has no domain, and a functional attribute applied
  to an expression, \<^verbatim>\<open>param.f(c)\<close>, is the node \<open>FunctionParameter\<close> of that name over the
  domain of \<open>c\<close>. The porosity \<^verbatim>\<open>param.epsilon\<close> is an expression of its own:
  \<^verbatim>\<open>get_explicit_combined\<close> takes its orphans (line 248).
\<close>

record params =
  param_potential_scale :: string
  param_U_n_ref :: string
  param_i_typ :: string
  param_kappa_e :: string
  param_chi :: string
  param_epsilon :: expr
  param_b :: string
  param_gamma_e :: string
  param_C_e :: string
  param_U_n :: string
  param_U_p :: string
  param_c_n_init :: string
  param_l_n :: string
  param_l_p :: string
  param_current_with_time :: string
  param_voltage_low_cut :: string

datatype solver = ScikitsDaeSolver

type_synonym variables_dict = "(string, expr) dict"

text \<open>
  The reaction dictionary of the source, reaction name to electrode side to quantity:
  \<^verbatim>\<open>{"main": {"neg": {"s_plus": 1, "aj": j_n}, "pos": {"s_plus": 1, "aj": j_p}}}\<close>.
\<close>

type_synonym reactions_dict = "(string, (string, (string, expr) dict) dict) dict"

text \<open>
  Modelled from the spec: \<^verbatim>\<open>pybamm.BaseModel\<close>, the class behind both the submodels and the
  top-level model, is not among the source files. Section 2 gives its fields: the five
  mappings, the events list and the default solver hint.
\<close>

record base_model =
  variables :: variables_dict
  rhs :: "(expr, expr) dict"
  algebraic :: "(expr, expr) dict"
  boundary_conditions :: "(expr, (string, expr) dict) dict"
  initial_conditions :: "(expr, expr) dict"
  events :: "expr list"
  default_solver :: "solver option"

record submodel = base_model +
  set_of_parameters :: params

text \<open>
  Modelled from the spec: \<^verbatim>\<open>SubModel.__init__(set_of_parameters)\<close>; a submodel is created
  empty (section 3, lifecycle). The two constructors of electrolyte\_current.py only call
  it.
\<close>

definition SubModel :: "params \<Rightarrow> submodel" where
  "SubModel p = \<lparr> variables = [], rhs = [], algebraic = [], boundary_conditions = [],
     initial_conditions = [], events = [], default_solver = None, set_of_parameters = p \<rparr>"

text \<open>
  A method of a submodel takes the object and returns what the call returns or raises
  together with the object as the call leaves it: an assignment to an attribute made
  before an exception stays made.
\<close>

type_synonym 'a method_result = "(error + 'a) \<times> submodel"

section \<open>electrolyte\_current.py\<close>

text \<open>
  \<^verbatim>\<open>ElectrolyteCurrentBaseModel.get_variables(self, phi_e, i_e, eta_e_av)\<close>. The values of
  the dictionary are built from top to bottom, each product before the sum that takes it.
\<close>

definition get_variables :: "submodel \<Rightarrow> expr \<Rightarrow> expr \<Rightarrow> expr \<Rightarrow> variables_dict method_result" where
  "get_variables self phi_e i_e eta_e_av =
    (let param = set_of_parameters self;
         pot_scale = Parameter (param_potential_scale param)
     in case unpack3 (orphans phi_e) of
          Inl e \<Rightarrow> (Inl e, self)
        | Inr (phi_e_n, phi_e_s, phi_e_p) \<Rightarrow>
           (on_success (multiply pot_scale phi_e_n) (\<lambda>scaled_n.
            on_success (add (Negate (Parameter (param_U_n_ref param))) scaled_n) (\<lambda>phi_e_n_dim.
            on_success (multiply pot_scale phi_e_s) (\<lambda>scaled_s.
            on_success (add (Negate (Parameter (param_U_n_ref param))) scaled_s) (\<lambda>phi_e_s_dim.
            on_success (multiply pot_scale phi_e_p) (\<lambda>scaled_p.
            on_success (add (Negate (Parameter (param_U_n_ref param))) scaled_p) (\<lambda>phi_e_p_dim.
            on_success (multiply pot_scale phi_e) (\<lambda>scaled.
            on_success (add (Negate (Parameter (param_U_n_ref param))) scaled) (\<lambda>phi_e_dim.
            on_success (multiply (Parameter (param_i_typ param)) i_e) (\<lambda>i_e_dim.
            on_success (multiply pot_scale eta_e_av) (\<lambda>eta_e_av_dim.
              Inr [
                (''Negative electrolyte potential'', phi_e_n),
                (''Separator electrolyte potential'', phi_e_s),
                (''Positive electrolyte potential'', phi_e_p),
                (''Electrolyte potential'', phi_e),
                (''Electrolyte current density'', i_e),
                (''Average electrolyte overpotential'', eta_e_av),
                (''Negative electrolyte potential [V]'', phi_e_n_dim),
                (''Separator electrolyte potential [V]'', phi_e_s_dim),
                (''Positive electrolyte potential [V]'', phi_e_p_dim),
                (''Electrolyte potential [V]'', phi_e_dim),
                (''Electrolyte current density [A m-2]'', i_e_dim),
                (''Average electrolyte overpotential [V]'', eta_e_av_dim)
              ])))))))))), self))"

text \<open>\<^verbatim>\<open>ElectrolyteCurrentBaseModel.get_split_electrolyte_overpotential(self, eta_c_av, delta_phi_e_av)\<close>\<close>

definition get_split_electrolyte_overpotential ::
  "submodel \<Rightarrow> expr \<Rightarrow> expr \<Rightarrow> variables_dict method_result" where
  "get_split_electrolyte_overpotential self eta_c_av delta_phi_e_av =
    (let param = set_of_parameters self;
         pot_scale = Parameter (param_potential_scale param)
     in (on_success (multiply pot_scale eta_c_av) (\<lambda>eta_c_av_dim.
         on_success (multiply pot_scale delta_phi_e_av) (\<lambda>delta_phi_e_av_dim.
           Inr [
             (''Average concentration overpotential'', eta_c_av),
             (''Average electrolyte ohmic losses'', delta_phi_e_av),
             (''Average concentration overpotential [V]'', eta_c_av_dim),
             (''Average electrolyte ohmic losses [V]'', delta_phi_e_av_dim)
           ])), self))"

text \<open>
  \<^verbatim>\<open>MacInnesStefanMaxwell.set_algebraic_system(self, phi_e, c_e, reactions, epsilon=None)\<close>.
  The argument \<open>epsilon\<close> is \<open>None\<close> when the caller leaves it out. The current density
  \<open>j\<close> (line 117), the flux \<open>i_e\<close> (lines 124-126) and the residual (line 129) are built,
  operand after operand, before the first assignment to a field; a DomainError of one of
  their constructors leaves the submodel as it was.
\<close>

definition set_algebraic_system ::
  "submodel \<Rightarrow> expr \<Rightarrow> expr \<Rightarrow> reactions_dict \<Rightarrow> expr option \<Rightarrow> unit method_result" where
  "set_algebraic_system self phi_e c_e reactions epsilon =
    (let param = set_of_parameters self in
     case on_success (getitem reactions ''main'') (\<lambda>main.
          on_success (getitem main ''neg'') (\<lambda>neg. getitem neg ''aj'')) of
       Inl e \<Rightarrow> (Inl e, self)
     | Inr j_n \<Rightarrow>
    (case on_success (getitem reactions ''main'') (\<lambda>main.
          on_success (getitem main ''pos'') (\<lambda>pos. getitem pos ''aj'')) of
       Inl e \<Rightarrow> (Inl e, self)
     | Inr j_p \<Rightarrow>
    (case on_success (broadcast (Scalar 0) [''separator'']) (\<lambda>zero_s.
          concatenation [j_n, zero_s, j_p]) of
       Inl e \<Rightarrow> (Inl e, self)
     | Inr j \<Rightarrow>
    (let eps = (case epsilon of None \<Rightarrow> param_epsilon param | Some x \<Rightarrow> x) in
     case on_success (power eps (Parameter (param_b param))) (\<lambda>eps_b.
          on_success (multiply (FunctionParameter (param_kappa_e param) c_e) eps_b) (\<lambda>k1.
          on_success (multiply k1 (Parameter (param_gamma_e param))) (\<lambda>k2.
          on_success (divide k2 (Parameter (param_C_e param))) (\<lambda>conductivity.
          on_success (grad c_e) (\<lambda>grad_c_e.
          on_success (multiply (FunctionParameter (param_chi param) c_e) grad_c_e) (\<lambda>d1.
          on_success (divide d1 c_e) (\<lambda>d2.
          on_success (grad phi_e) (\<lambda>grad_phi_e.
          on_success (subtract d2 grad_phi_e) (\<lambda>driving.
          multiply conductivity driving))))))))) of
       Inl e \<Rightarrow> (Inl e, self)
     | Inr i_e \<Rightarrow>
    (case on_success (div_expr i_e) (\<lambda>div_i_e. subtract div_i_e j) of
       Inl e \<Rightarrow> (Inl e, self)
     | Inr residual \<Rightarrow>
    (let self1 = self\<lparr> algebraic := [(phi_e, residual)] \<rparr>;
         self2 = self1\<lparr> boundary_conditions :=
                   [(i_e, [(''left'', Scalar 0), (''right'', Scalar 0)])] \<rparr>;
         self3 = self2\<lparr> initial_conditions :=
                   [(phi_e, Negate (FunctionParameter (param_U_n param)
                                      (Parameter (param_c_n_init param))))] \<rparr>;
         self4 = self3\<lparr> rhs := [] \<rparr>
     in (case unpack3 (orphans phi_e) of
           Inl e \<Rightarrow> (Inl e, self4)
         | Inr (phi_e_n, phi_e_s, phi_e_p) \<Rightarrow>
        (case on_success (average phi_e_n) (\<lambda>phi_e_n_av.
              on_success (average phi_e_p) (\<lambda>phi_e_p_av.
              subtract phi_e_p_av phi_e_n_av)) of
           Inl e \<Rightarrow> (Inl e, self4)
         | Inr eta_e_av \<Rightarrow>
        (case get_variables self4 phi_e i_e eta_e_av of
           (Inl e, self5) \<Rightarrow> (Inl e, self5)
         | (Inr vs, self5) \<Rightarrow>
             (Inr (), self5\<lparr> variables := vs,
                             default_solver := Some ScikitsDaeSolver \<rparr>))))))))))"

text \<open>
  Modelled from the spec: \<^verbatim>\<open>pybamm.standard_spatial_vars\<close>, the coordinates along the
  negative and the positive electrode (section 6, parameter collaborator).
\<close>

definition standard_spatial_vars_x_n :: expr where
  "standard_spatial_vars_x_n = SpatialVariable ''x_n'' [''negative electrode'']"

definition standard_spatial_vars_x_p :: expr where
  "standard_spatial_vars_x_p = SpatialVariable ''x_p'' [''positive electrode'']"

text \<open>
  \<^verbatim>\<open>MacInnesStefanMaxwell.get_explicit_leading_order(self, ocp_n, eta_r_n)\<close>. The method
  assigns to no field; the expressions of lines 175-192 are built in the order of the
  source.
\<close>

definition get_explicit_leading_order ::
  "submodel \<Rightarrow> expr \<Rightarrow> expr \<Rightarrow> variables_dict method_result" where
  "get_explicit_leading_order self ocp_n eta_r_n =
    (let param = set_of_parameters self;
         l_n = Parameter (param_l_n param);
         l_p = Parameter (param_l_p param);
         x_n = standard_spatial_vars_x_n;
         x_p = standard_spatial_vars_x_p;
         i_cell = Parameter (param_current_with_time param)
     in case
          on_success (subtract (Negate ocp_n) eta_r_n) (\<lambda>phi_e_const.
          on_success (broadcast phi_e_const [''negative electrode'']) (\<lambda>phi_e_n.
          on_success (broadcast phi_e_const [''separator'']) (\<lambda>phi_e_s.
          on_success (broadcast phi_e_const [''positive electrode'']) (\<lambda>phi_e_p.
          on_success (concatenation [phi_e_n, phi_e_s, phi_e_p]) (\<lambda>phi_e.
          on_success (multiply i_cell x_n) (\<lambda>n1.
          on_success (divide n1 l_n) (\<lambda>i_e_n.
          on_success (broadcast i_cell [''separator'']) (\<lambda>i_e_s.
          on_success (subtract (Scalar 1) x_p) (\<lambda>p1.
          on_success (multiply i_cell p1) (\<lambda>p2.
          on_success (divide p2 l_p) (\<lambda>i_e_p.
          on_success (concatenation [i_e_n, i_e_s, i_e_p]) (\<lambda>i_e.
          (let delta_phi_e_av = Scalar 0;
               eta_c_av = Scalar 0
           in on_success (add eta_c_av delta_phi_e_av) (\<lambda>eta_e_av.
              Inr (phi_e, i_e, delta_phi_e_av, eta_c_av, eta_e_av)))))))))))))))
        of
          Inl e \<Rightarrow> (Inl e, self)
        | Inr (phi_e, i_e, delta_phi_e_av, eta_c_av, eta_e_av) \<Rightarrow>
       (case get_variables self phi_e i_e eta_e_av of
          (Inl e, self1) \<Rightarrow> (Inl e, self1)
        | (Inr vs, self1) \<Rightarrow>
           (case get_split_electrolyte_overpotential self1 eta_c_av delta_phi_e_av of
              (Inl e, self2) \<Rightarrow> (Inl e, self2)
            | (Inr additional_vars, self2) \<Rightarrow> (Inr (dict_update vs additional_vars), self2))))"

section \<open>The merge protocol\<close>

text \<open>
  The top-level model: the fields of the base class, and the name and the options that
  \<^verbatim>\<open>DFN.__init__\<close> and \<^verbatim>\<open>DFN.set_model_variables\<close> use.
\<close>

record model = base_model +
  name :: string
  options :: "(string, string) dict"

text \<open>
  Modelled from the spec: \<^verbatim>\<open>update\<close> of the absent \<^verbatim>\<open>pybamm.BaseModel\<close>, after section 4.5.
  For each of the five mapping fields and each key of the source's mapping: a key already
  present in the target's mapping fails with a construction error naming the field and the
  key, any other key is inserted. The events are appended. A failed merge leaves the target
  as it was (the atomic variant of section 9).
\<close>

fun merge_field ::
  "string \<Rightarrow> ('k \<Rightarrow> dict_key) \<Rightarrow> ('k, 'v) dict \<Rightarrow> ('k, 'v) dict \<Rightarrow> error + ('k, 'v) dict" where
  "merge_field field tag target [] = Inr target"
| "merge_field field tag target ((k, v) # rest) =
     (if k \<in> keys target then Inl (ModelError field (tag k))
      else merge_field field tag (target @ [(k, v)]) rest)"

definition update :: "model \<Rightarrow> submodel \<Rightarrow> error + model" where
  "update target source =
    (case merge_field ''variables'' NameKey (variables target) (variables source) of
       Inl e \<Rightarrow> Inl e
     | Inr vs \<Rightarrow>
    (case merge_field ''rhs'' SymbolKey (rhs target) (rhs source) of
       Inl e \<Rightarrow> Inl e
     | Inr r \<Rightarrow>
    (case merge_field ''algebraic'' SymbolKey (algebraic target) (algebraic source) of
       Inl e \<Rightarrow> Inl e
     | Inr a \<Rightarrow>
    (case merge_field ''boundary_conditions'' SymbolKey
            (boundary_conditions target) (boundary_conditions source) of
       Inl e \<Rightarrow> Inl e
     | Inr bcs \<Rightarrow>
    (case merge_field ''initial_conditions'' SymbolKey
            (initial_conditions target) (initial_conditions source) of
       Inl e \<Rightarrow> Inl e
     | Inr ics \<Rightarrow>
         Inr (target\<lparr> variables := vs, rhs := r, algebraic := a, boundary_conditions := bcs,
                      initial_conditions := ics,
                      events := events target @ events source \<rparr>))))))"

section \<open>Calls with positional arguments\<close>

text \<open>
  The values that a caller can pass to \<^verbatim>\<open>set_algebraic_system\<close>: an expression, \<^verbatim>\<open>None\<close>, and
  the two dictionaries that \<^verbatim>\<open>DFN.__init__\<close> passes, the model's \<^verbatim>\<open>variables\<close> and the
  reaction dictionary.
\<close>

datatype pyvalue =
    PyNone
  | PySymbol expr
  | PyVariables variables_dict
  | PyReactions reactions_dict

text \<open>
  Python binds the positional arguments of a call to the parameters of
  \<^verbatim>\<open>def set_algebraic_system(self, phi_e, c_e, reactions, epsilon=None)\<close> from left to right;
  \<open>epsilon\<close> takes its default when no fourth argument is given, and a call that leaves a
  parameter without default unbound, or passes too many arguments, raises TypeError before
  the body runs.
\<close>

fun bind_set_algebraic_system ::
  "pyvalue list \<Rightarrow> error + (pyvalue \<times> pyvalue \<times> pyvalue \<times> pyvalue)" where
  "bind_set_algebraic_system [] = Inl (TypeError
     ''set_algebraic_system() missing 3 required positional arguments: phi_e, c_e, and reactions'')"
| "bind_set_algebraic_system [a1] = Inl (TypeError
     ''set_algebraic_system() missing 2 required positional arguments: c_e and reactions'')"
| "bind_set_algebraic_system [a1, a2] = Inl (TypeError
     ''set_algebraic_system() missing 1 required positional argument: reactions'')"
| "bind_set_algebraic_system [a1, a2, a3] = Inr (a1, a2, a3, PyNone)"
| "bind_set_algebraic_system [a1, a2, a3, a4] = Inr (a1, a2, a3, a4)"
| "bind_set_algebraic_system (a1 # a2 # a3 # a4 # a5 # rest) = Inl (TypeError
     ''set_algebraic_system() takes from 4 to 5 positional arguments but more were given'')"

text \<open>
  A call of \<^verbatim>\<open>MacInnesStefanMaxwell.set_algebraic_system\<close> with a list of positional
  arguments. Once the arguments are bound the body runs on them. The body is embedded above
  for the kinds of value that its docstring declares; on a value of another kind Python
  would fail inside the body or inside pybamm, in code that is not among the source files,
  and the last case stands for that failure.
\<close>

definition call_set_algebraic_system :: "submodel \<Rightarrow> pyvalue list \<Rightarrow> unit method_result" where
  "call_set_algebraic_system self args =
    (case bind_set_algebraic_system args of
       Inl e \<Rightarrow> (Inl e, self)
     | Inr (PySymbol phi_e, PySymbol c_e, PyReactions reactions, PyNone) \<Rightarrow>
         set_algebraic_system self phi_e c_e reactions None
     | Inr (PySymbol phi_e, PySymbol c_e, PyReactions reactions, PySymbol epsilon) \<Rightarrow>
         set_algebraic_system self phi_e c_e reactions (Some epsilon)
     | Inr _ \<Rightarrow> (Inl (TypeError ''set_algebraic_system(): unsupported argument''), self))"
section \<open>dfn.py\<close>

text \<open>
  The code that \<^verbatim>\<open>DFN.__init__\<close> calls and that is not among the source files is a
  parameter of the assembly: the parameter object and the standard variables, the base
  class's treatment of the \<open>options\<close> argument, the interface and potential helpers, and
  the methods of the particle, electrolyte diffusion, electrode and thermal submodels. A
  helper returns a value or raises; a submodel method is a method in the sense above.
\<close>

record collaborators =
  standard_parameters_lithium_ion :: params
  standard_variables_c_s_n :: expr
  standard_variables_c_s_p :: expr
  standard_variables_c_e :: expr
  standard_variables_phi_e :: expr
  standard_variables_phi_s_p :: expr
  standard_variables_phi_s_n :: expr
  standard_variables_T :: expr
  standard_variables_T_av :: expr
  base_model_options :: "(string, string) dict option \<Rightarrow> (string, string) dict"
  get_exchange_current_densities :: "expr \<Rightarrow> expr \<Rightarrow> error + expr"
  get_butler_volmer :: "expr \<Rightarrow> expr \<Rightarrow> error + expr"
  get_derived_interfacial_currents :: "expr \<Rightarrow> expr \<Rightarrow> expr \<Rightarrow> expr \<Rightarrow> error + variables_dict"
  particle_set_differential_system :: "submodel \<Rightarrow> expr \<Rightarrow> expr \<Rightarrow> unit method_result"
  electrolyte_diffusion_set_differential_system ::
    "submodel \<Rightarrow> variables_dict \<Rightarrow> reactions_dict \<Rightarrow> unit method_result"
  electrode_set_algebraic_system ::
    "submodel \<Rightarrow> variables_dict \<Rightarrow> reactions_dict \<Rightarrow> string list \<Rightarrow> unit method_result"
  electrode_get_variables ::
    "submodel \<Rightarrow> expr \<Rightarrow> expr \<Rightarrow> expr \<Rightarrow> expr \<Rightarrow> variables_dict method_result"
  thermal_set_full_differential_system ::
    "submodel \<Rightarrow> variables_dict \<Rightarrow> reactions_dict \<Rightarrow> unit method_result"
  thermal_set_x_lumped_differential_system ::
    "submodel \<Rightarrow> variables_dict \<Rightarrow> reactions_dict \<Rightarrow> unit method_result"
  get_derived_open_circuit_potentials :: "expr \<Rightarrow> expr \<Rightarrow> error + variables_dict"
  get_derived_reaction_overpotentials :: "expr \<Rightarrow> expr \<Rightarrow> error + variables_dict"

text \<open>
  Modelled from the spec: \<^verbatim>\<open>LithiumIonBaseModel.__init__(options)\<close>, which is not among the
  source files: the model starts with empty mappings and no events (section 3); the
  \<open>options\<close> it keeps are the collaborator's reading of the argument.
\<close>

definition BaseModel_init :: "collaborators \<Rightarrow> (string, string) dict option \<Rightarrow> model" where
  "BaseModel_init env options_arg =
     \<lparr> variables = [], rhs = [], algebraic = [], boundary_conditions = [],
       initial_conditions = [], events = [], default_solver = None,
       name = [], options = base_model_options env options_arg \<rparr>"

text \<open>
  \<^verbatim>\<open>DFN.set_model_variables(self, param)\<close>. The expressions of lines 122-130 are built in
  the order of the source, before the model is touched.
\<close>

definition set_model_variables :: "collaborators \<Rightarrow> model \<Rightarrow> params \<Rightarrow> (error + unit) \<times> model" where
  "set_model_variables env self param =
    (let c_s_n = standard_variables_c_s_n env;
         c_s_p = standard_variables_c_s_p env;
         c_e = standard_variables_c_e env;
         phi_e = standard_variables_phi_e env;
         phi_s_p = standard_variables_phi_s_p env;
         phi_s_n = standard_variables_phi_s_n env
     in case
          on_success (index (orphans phi_e) 0) (\<lambda>phi_e_0.
          on_success (subtract phi_s_n phi_e_0) (\<lambda>delta_phi_n.
          on_success (index (orphans phi_e) 2) (\<lambda>phi_e_2.
          on_success (subtract phi_s_p phi_e_2) (\<lambda>delta_phi_p.
          on_success (surf c_s_n True) (\<lambda>c_s_n_surf.
          on_success (surf c_s_p True) (\<lambda>c_s_p_surf.
          (let ocp_n = FunctionParameter (param_U_n param) c_s_n_surf;
               ocp_p = FunctionParameter (param_U_p param) c_s_p_surf
           in on_success (subtract delta_phi_n ocp_n) (\<lambda>eta_r_n.
              on_success (subtract delta_phi_p ocp_p) (\<lambda>eta_r_p.
              Inr (delta_phi_n, delta_phi_p, ocp_n, ocp_p, eta_r_n, eta_r_p))))))))))
        of
          Inl e \<Rightarrow> (Inl e, self)
        | Inr (delta_phi_n, delta_phi_p, ocp_n, ocp_p, eta_r_n, eta_r_p) \<Rightarrow>
       (let self1 = self\<lparr> variables := dict_update (variables self) [
                (''Electrolyte concentration'', c_e),
                (''Negative particle concentration'', c_s_n),
                (''Positive particle concentration'', c_s_p),
                (''Electrolyte potential'', phi_e),
                (''Negative electrode potential'', phi_s_n),
                (''Positive electrode potential'', phi_s_p),
                (''Negative electrode surface potential difference'', delta_phi_n),
                (''Positive electrode surface potential difference'', delta_phi_p),
                (''Negative electrode open circuit potential'', ocp_n),
                (''Positive electrode open circuit potential'', ocp_p),
                (''Negative reaction overpotential'', eta_r_n),
                (''Positive reaction overpotential'', eta_r_p)] \<rparr>
        in (case getitem (options self1) ''thermal'' of
              Inl e \<Rightarrow> (Inl e, self1)
            | Inr thermal1 \<Rightarrow>
           (let self2 = (if thermal1 = ''full''
                         then self1\<lparr> variables := dict_update (variables self1)
                                  [(''Cell temperature'', standard_variables_T env)] \<rparr>
                         else self1)
            in (case getitem (options self2) ''thermal'' of
                  Inl e \<Rightarrow> (Inl e, self2)
                | Inr thermal2 \<Rightarrow>
                    (Inr (),
                     if thermal2 = ''lumped''
                     then self2\<lparr> variables := dict_update (variables self2)
                              [(''Average cell temperature'', standard_variables_T_av env)] \<rparr>
                     else self2))))))"

subsection \<open>The assembly state\<close>

text \<open>
  \<^verbatim>\<open>DFN.__init__\<close> mutates the model under construction and raises on the first failure.
  Its state here is that model together with two logs that the source does not keep and
  the assembly never reads: the model as it stands after each successful \<^verbatim>\<open>self.update\<close>,
  and the lifecycle of the submodel instances (created, handed a \<^verbatim>\<open>set_*_system\<close> call,
  merged), each named by the local variable that holds it in the source.
\<close>

datatype lifecycle_event =
    Created string
  | Populated string string
  | Merged string

record assembly =
  the_model :: model
  merge_points :: "model list"
  lifecycle :: "lifecycle_event list"

type_synonym 'a step = "assembly \<Rightarrow> (error + 'a) \<times> assembly"

text \<open>Statement after statement: the second runs only if the first did not raise.\<close>

definition and_then :: "'a step \<Rightarrow> ('a \<Rightarrow> 'b step) \<Rightarrow> 'b step" where
  "and_then f g st = (case f st of (Inl e, st1) \<Rightarrow> (Inl e, st1) | (Inr x, st1) \<Rightarrow> g x st1)"

text \<open>A call of a helper that does not touch the model.\<close>

definition helper :: "error + 'a \<Rightarrow> 'a step" where
  "helper r st = (r, st)"

text \<open>A statement that mutates the model and may raise.\<close>

definition on_model :: "(model \<Rightarrow> (error + 'a) \<times> model) \<Rightarrow> 'a step" where
  "on_model f st = (case f (the_model st) of (r, m) \<Rightarrow> (r, st\<lparr> the_model := m \<rparr>))"

text \<open>\<^verbatim>\<open>self.variables[k]\<close>, \<^verbatim>\<open>self.variables.update(d)\<close> and \<^verbatim>\<open>self.options[k]\<close>\<close>

definition self_option :: "string \<Rightarrow> string step" where
  "self_option k st = (getitem (options (the_model st)) k, st)"

definition self_variable :: "string \<Rightarrow> expr step" where
  "self_variable k st = (getitem (variables (the_model st)) k, st)"

definition self_variables_update :: "variables_dict \<Rightarrow> unit step" where
  "self_variables_update d st =
     (Inr (), st\<lparr> the_model := (the_model st)\<lparr> variables := dict_update (variables (the_model st)) d \<rparr> \<rparr>)"

text \<open>A constructor call \<^verbatim>\<open>x = pybamm.<module>.<Class>(param)\<close>: the instance is created empty.\<close>

definition create :: "string \<Rightarrow> params \<Rightarrow> submodel step" where
  "create instance p st = (Inr (SubModel p), st\<lparr> lifecycle := lifecycle st @ [Created instance] \<rparr>)"

text \<open>
  A call \<^verbatim>\<open>x.set_..._system(...)\<close> on a submodel instance: the call is logged, and the
  statement yields the instance as the method left it unless the method raised.
\<close>

definition populate :: "string \<Rightarrow> string \<Rightarrow> unit method_result \<Rightarrow> submodel step" where
  "populate instance method r st =
     (let st1 = st\<lparr> lifecycle := lifecycle st @ [Populated instance method] \<rparr>
      in case r of (Inl e, sm) \<Rightarrow> (Inl e, st1) | (Inr u, sm) \<Rightarrow> (Inr sm, st1))"

text \<open>\<^verbatim>\<open>self.update(x)\<close>\<close>

definition self_update :: "string \<Rightarrow> submodel \<Rightarrow> unit step" where
  "self_update instance sm st =
     (case update (the_model st) sm of
        Inl e \<Rightarrow> (Inl e, st)
      | Inr m \<Rightarrow> (Inr (), st\<lparr> the_model := m, merge_points := merge_points st @ [m],
                               lifecycle := lifecycle st @ [Merged instance] \<rparr>))"

subsection \<open>The submodel sections of \<^verbatim>\<open>DFN.__init__\<close>\<close>

text \<open>Lines 51-57, particle models.\<close>

definition particle_models ::
  "collaborators \<Rightarrow> params \<Rightarrow> expr \<Rightarrow> expr \<Rightarrow> expr \<Rightarrow> expr \<Rightarrow> unit step" where
  "particle_models env param c_s_n j_n c_s_p j_p =
     and_then (create ''negative_particle_model'' param) (\<lambda>negative_particle_model0.
     and_then (populate ''negative_particle_model'' ''set_differential_system''
                 (particle_set_differential_system env negative_particle_model0 c_s_n j_n))
              (\<lambda>negative_particle_model.
     and_then (create ''positive_particle_model'' param) (\<lambda>positive_particle_model0.
     and_then (populate ''positive_particle_model'' ''set_differential_system''
                 (particle_set_differential_system env positive_particle_model0 c_s_p j_p))
              (\<lambda>positive_particle_model.
     and_then (self_update ''negative_particle_model'' negative_particle_model) (\<lambda>u.
     self_update ''positive_particle_model'' positive_particle_model)))))"

text \<open>Lines 63-66, electrolyte diffusion model.\<close>

definition electrolyte_diffusion :: "collaborators \<Rightarrow> params \<Rightarrow> reactions_dict \<Rightarrow> unit step" where
  "electrolyte_diffusion env param reactions =
     and_then (create ''electrolyte_diffusion_model'' param) (\<lambda>electrolyte_diffusion_model0.
     and_then (\<lambda>st. populate ''electrolyte_diffusion_model'' ''set_differential_system''
                 (electrolyte_diffusion_set_differential_system env electrolyte_diffusion_model0
                    (variables (the_model st)) reactions) st)
              (\<lambda>electrolyte_diffusion_model.
     self_update ''electrolyte_diffusion_model'' electrolyte_diffusion_model))"

text \<open>
  Lines 68-70, electrolyte current model. The call passes two positional arguments,
  \<^verbatim>\<open>self.variables\<close> and \<^verbatim>\<open>reactions\<close>.
\<close>

definition electrolyte_current :: "params \<Rightarrow> reactions_dict \<Rightarrow> unit step" where
  "electrolyte_current param reactions =
     and_then (create ''eleclyte_current_model'' param) (\<lambda>eleclyte_current_model0.
     and_then (\<lambda>st. populate ''eleclyte_current_model'' ''set_algebraic_system''
                 (call_set_algebraic_system eleclyte_current_model0
                    [PyVariables (variables (the_model st)), PyReactions reactions]) st)
              (\<lambda>eleclyte_current_model.
     self_update ''eleclyte_current_model'' eleclyte_current_model))"

text \<open>
  Lines 72-78, electrode models. The section yields the submodel instance, which the
  post-processing asks for the voltage variables.
\<close>

definition electrode_models :: "collaborators \<Rightarrow> params \<Rightarrow> reactions_dict \<Rightarrow> submodel step" where
  "electrode_models env param reactions =
    (let neg = [''negative electrode''];
         pos = [''positive electrode'']
     in
     and_then (create ''electrode_current_model'' param) (\<lambda>electrode_current_model0.
     and_then (\<lambda>st. populate ''electrode_current_model'' ''set_algebraic_system''
                 (electrode_set_algebraic_system env electrode_current_model0
                    (variables (the_model st)) reactions neg) st)
              (\<lambda>electrode_current_model1.
     and_then (\<lambda>st. populate ''electrode_current_model'' ''set_algebraic_system''
                 (electrode_set_algebraic_system env electrode_current_model1
                    (variables (the_model st)) reactions pos) st)
              (\<lambda>electrode_current_model.
     and_then (self_update ''electrode_current_model'' electrode_current_model) (\<lambda>u.
     helper (Inr electrode_current_model))))))"

text \<open>Lines 80-86, thermal model.\<close>

definition thermal :: "collaborators \<Rightarrow> params \<Rightarrow> reactions_dict \<Rightarrow> unit step" where
  "thermal env param reactions =
     and_then (create ''thermal_model'' param) (\<lambda>thermal_model0.
     and_then (self_option ''thermal'') (\<lambda>thermal1.
     and_then
       (if thermal1 = ''full''
        then (\<lambda>st. populate ''thermal_model'' ''set_full_differential_system''
                (thermal_set_full_differential_system env thermal_model0
                   (variables (the_model st)) reactions) st)
        else and_then (self_option ''thermal'') (\<lambda>thermal2.
               if thermal2 = ''lumped''
               then (\<lambda>st. populate ''thermal_model'' ''set_x_lumped_differential_system''
                       (thermal_set_x_lumped_differential_system env thermal_model0
                          (variables (the_model st)) reactions) st)
               else helper (Inr thermal_model0)))
       (\<lambda>thermal_model.
     self_update ''thermal_model'' thermal_model)))"

text \<open>Lines 88-113, post-processing and the cut-off voltage event.\<close>

definition post_process ::
  "collaborators \<Rightarrow> params \<Rightarrow> submodel \<Rightarrow> expr \<Rightarrow> expr \<Rightarrow> expr \<Rightarrow> expr \<Rightarrow>
     expr \<Rightarrow> expr \<Rightarrow> expr \<Rightarrow> expr \<Rightarrow> unit step" where
  "post_process env param electrode_current_model j_n j_p j0_n j0_p ocp_n ocp_p eta_r_n eta_r_p =
     and_then (helper (get_derived_interfacial_currents env j_n j_p j0_n j0_p)) (\<lambda>j_vars.
     and_then (self_variables_update j_vars) (\<lambda>u1.
     and_then (helper (get_derived_open_circuit_potentials env ocp_n ocp_p)) (\<lambda>ocp_vars.
     and_then (helper (get_derived_reaction_overpotentials env eta_r_n eta_r_p)) (\<lambda>eta_r_vars.
     and_then (self_variables_update (dict_update ocp_vars eta_r_vars)) (\<lambda>u2.
     and_then (self_variable ''Negative electrode potential'') (\<lambda>phi_s_n.
     and_then (self_variable ''Positive electrode potential'') (\<lambda>phi_s_p.
     and_then (self_variable ''Negative electrode current density'') (\<lambda>i_s_n.
     and_then (self_variable ''Positive electrode current density'') (\<lambda>i_s_p.
     and_then (helper (fst (electrode_get_variables env electrode_current_model
                              phi_s_n phi_s_p i_s_n i_s_p))) (\<lambda>volt_vars.
     and_then (self_variables_update volt_vars) (\<lambda>u3.
     and_then (self_variable ''Terminal voltage'') (\<lambda>voltage.
     and_then (helper (subtract voltage (Parameter (param_voltage_low_cut param)))) (\<lambda>cut_off.
     (\<lambda>st. (Inr (), st\<lparr> the_model := (the_model st)\<lparr> events :=
                events (the_model st) @ [cut_off] \<rparr> \<rparr>))
     )))))))))))))"

subsection \<open>\<^verbatim>\<open>DFN.__init__(self, options=None)\<close>\<close>

definition DFN_init :: "collaborators \<Rightarrow> unit step" where
  "DFN_init env =
    (let param = standard_parameters_lithium_ion env;
         i_boundary_cc = Parameter (param_current_with_time param)
     in
     and_then (on_model (\<lambda>m. (Inr (), m\<lparr> name := ''Doyle-Fuller-Newman model'' \<rparr>))) (\<lambda>u1.
     and_then (on_model (\<lambda>m. (Inr (), m\<lparr> variables :=
                 setitem (variables m) ''Current collector current density'' i_boundary_cc \<rparr>)))
              (\<lambda>u2.
     and_then (on_model (\<lambda>m. set_model_variables env m param)) (\<lambda>u3.
     and_then (self_variable ''Electrolyte concentration'') (\<lambda>c_e.
     and_then (self_variable ''Negative particle concentration'') (\<lambda>c_s_n.
     and_then (self_variable ''Positive particle concentration'') (\<lambda>c_s_p.
     and_then (self_variable ''Negative electrode open circuit potential'') (\<lambda>ocp_n.
     and_then (self_variable ''Positive electrode open circuit potential'') (\<lambda>ocp_p.
     and_then (self_variable ''Negative reaction overpotential'') (\<lambda>eta_r_n.
     and_then (self_variable ''Positive reaction overpotential'') (\<lambda>eta_r_p.
     and_then (helper (unpack3 (orphans c_e))) (\<lambda>(c_e_n, c_e_s, c_e_p).
     and_then (helper (surf c_s_n True)) (\<lambda>c_s_n_surf.
     and_then (helper (surf c_s_p True)) (\<lambda>c_s_p_surf.
     and_then (helper (get_exchange_current_densities env c_e_n c_s_n_surf)) (\<lambda>j0_n.
     and_then (helper (get_exchange_current_densities env c_e_p c_s_p_surf)) (\<lambda>j0_p.
     and_then (helper (get_butler_volmer env j0_n eta_r_n)) (\<lambda>j_n.
     and_then (helper (get_butler_volmer env j0_p eta_r_p)) (\<lambda>j_p.
     and_then (helper (get_derived_interfacial_currents env j_n j_p j0_n j0_p)) (\<lambda>j_vars.
     and_then (self_variables_update j_vars) (\<lambda>u4.
     and_then (particle_models env param c_s_n j_n c_s_p j_p) (\<lambda>u5.
     (let reactions = [(''main'', [(''neg'', [(''s_plus'', Scalar 1), (''aj'', j_n)]),
                                    (''pos'', [(''s_plus'', Scalar 1), (''aj'', j_p)])])]
      in
     and_then (electrolyte_diffusion env param reactions) (\<lambda>u6.
     and_then (electrolyte_current param reactions) (\<lambda>u7.
     and_then (electrode_models env param reactions) (\<lambda>electrode_current_model.
     and_then (thermal env param reactions) (\<lambda>u8.
     post_process env param electrode_current_model j_n j_p j0_n j0_p
       ocp_n ocp_p eta_r_n eta_r_p))))))))))))))))))))))))))"

text \<open>
  The constructor call \<^verbatim>\<open>DFN(options)\<close>: the base class initialises the object,
  \<^verbatim>\<open>__init__\<close> runs on it, and the caller gets the model only if nothing was raised.
\<close>

definition DFN_run :: "collaborators \<Rightarrow> (string, string) dict option \<Rightarrow> (error + unit) \<times> assembly" where
  "DFN_run env options_arg =
     DFN_init env \<lparr> the_model = BaseModel_init env options_arg, merge_points = [], lifecycle = [] \<rparr>"

definition DFN :: "collaborators \<Rightarrow> (string, string) dict option \<Rightarrow> error + model" where
  "DFN env options_arg =
     (case DFN_run env options_arg of (Inl e, st) \<Rightarrow> Inl e | (Inr u, st) \<Rightarrow> Inr (the_model st))"

section \<open>Notions used to state the properties\<close>

text \<open>
  The flux \<open>i_e\<close> of the MacInnes equation as the comment of \<^verbatim>\<open>set_algebraic_system\<close> and
  its formula give it: conductivity times porosity factor over \<open>C_e\<close>, times the
  concentration-gradient term minus the potential gradient.
\<close>

definition MacInnes_flux :: "params \<Rightarrow> expr \<Rightarrow> expr \<Rightarrow> expr \<Rightarrow> expr" where
  "MacInnes_flux param phi_e c_e eps =
     Multiplication
       (Division
          (Multiplication
             (Multiplication (FunctionParameter (param_kappa_e param) c_e)
                (Power eps (Parameter (param_b param))))
             (Parameter (param_gamma_e param)))
          (Parameter (param_C_e param)))
       (Subtraction
          (Division (Multiplication (FunctionParameter (param_chi param) c_e) (Gradient c_e)) c_e)
          (Gradient phi_e))"

text \<open>The number that a constant arithmetic expression denotes.\<close>

fun scalar_value :: "expr \<Rightarrow> int option" where
  "scalar_value (Scalar v) = Some v"
| "scalar_value (Negate x) = map_option uminus (scalar_value x)"
| "scalar_value (Addition x y) =
     (case (scalar_value x, scalar_value y) of (Some a, Some b) \<Rightarrow> Some (a + b) | _ \<Rightarrow> None)"
| "scalar_value (Subtraction x y) =
     (case (scalar_value x, scalar_value y) of (Some a, Some b) \<Rightarrow> Some (a - b) | _ \<Rightarrow> None)"
| "scalar_value (Multiplication x y) =
     (case (scalar_value x, scalar_value y) of (Some a, Some b) \<Rightarrow> Some (a * b) | _ \<Rightarrow> None)"
| "scalar_value e = None"





text \<open>
  The lifecycle log of an assembly that gets as far as the call of line 69: the two
  particle instances and the electrolyte diffusion instance created, populated and merged,
  the electrolyte current instance created and handed its call.
\<close>

definition lifecycle_to_line_69 :: "lifecycle_event list" where
  "lifecycle_to_line_69 =
     [Created ''negative_particle_model'',
      Populated ''negative_particle_model'' ''set_differential_system'',
      Created ''positive_particle_model'',
      Populated ''positive_particle_model'' ''set_differential_system'',
      Merged ''negative_particle_model'',
      Merged ''positive_particle_model'',
      Created ''electrolyte_diffusion_model'',
      Populated ''electrolyte_diffusion_model'' ''set_differential_system'',
      Merged ''electrolyte_diffusion_model'',
      Created ''eleclyte_current_model'',
      Populated ''eleclyte_current_model'' ''set_algebraic_system'']"


section \<open>Reference collaborators\<close>

text \<open>
  Modelled from the spec: one concrete set of collaborators, on which the assembly can be
  run. The parameter object supplies opaque named values (section 6); the porosity is a
  concatenation of one broadcast value per subdomain. The electrolyte variables are
  concatenations over negative electrode, separator and positive electrode (section 3). A
  differential submodel populates \<open>rhs\<close>, the boundary conditions and the initial
  condition of its state variable, an algebraic one \<open>algebraic\<close>, the boundary conditions
  and the initial guess (section 4.4); the electrode submodel handles the electrode whose
  domain it is given and keeps what an earlier call stored.
\<close>

definition reference_parameters :: params where
  "reference_parameters = \<lparr>
     param_potential_scale = ''potential_scale'',
     param_U_n_ref = ''U_n_ref'',
     param_i_typ = ''i_typ'',
     param_kappa_e = ''kappa_e'',
     param_chi = ''chi'',
     param_epsilon = Concatenation [
       Broadcast (Parameter ''epsilon_n'') [''negative electrode''],
       Broadcast (Parameter ''epsilon_s'') [''separator''],
       Broadcast (Parameter ''epsilon_p'') [''positive electrode'']],
     param_b = ''b'',
     param_gamma_e = ''gamma_e'',
     param_C_e = ''C_e'',
     param_U_n = ''U_n'',
     param_U_p = ''U_p'',
     param_c_n_init = ''c_n_init'',
     param_l_n = ''l_n'',
     param_l_p = ''l_p'',
     param_current_with_time = ''current_with_time'',
     param_voltage_low_cut = ''voltage_low_cut'' \<rparr>"

definition reference_particle_set_differential_system ::
  "submodel \<Rightarrow> expr \<Rightarrow> expr \<Rightarrow> unit method_result" where
  "reference_particle_set_differential_system self c j =
     (Inr (), self\<lparr> rhs := [(c, Divergence (Gradient c))],
                    boundary_conditions := [(c, [(''left'', Scalar 0), (''right'', Negate j)])],
                    initial_conditions := [(c, FunctionParameter ''c_init'' c)] \<rparr>)"

definition reference_electrolyte_diffusion_set_differential_system ::
  "submodel \<Rightarrow> variables_dict \<Rightarrow> reactions_dict \<Rightarrow> unit method_result" where
  "reference_electrolyte_diffusion_set_differential_system self vars reactions =
     (case getitem vars ''Electrolyte concentration'' of
        Inl e \<Rightarrow> (Inl e, self)
      | Inr c_e \<Rightarrow>
          (Inr (), self\<lparr> rhs := [(c_e, Divergence (Gradient c_e))],
                         boundary_conditions :=
                           [(c_e, [(''left'', Scalar 0), (''right'', Scalar 0)])],
                         initial_conditions := [(c_e, Scalar 1)],
                         variables := [(''Electrolyte flux'', Gradient c_e)] \<rparr>))"

definition reference_electrode_set_algebraic_system ::
  "submodel \<Rightarrow> variables_dict \<Rightarrow> reactions_dict \<Rightarrow> string list \<Rightarrow> unit method_result" where
  "reference_electrode_set_algebraic_system self vars reactions d =
     (let side = (if d = [''negative electrode''] then ''Negative'' else ''Positive'') in
      case getitem vars (side @ '' electrode potential'') of
        Inl e \<Rightarrow> (Inl e, self)
      | Inr phi_s \<Rightarrow>
          (Inr (), self\<lparr>
             algebraic := setitem (algebraic self) phi_s (Divergence (Gradient phi_s)),
             boundary_conditions := setitem (boundary_conditions self) phi_s
                [(''left'', Scalar 0), (''right'', Scalar 0)],
             initial_conditions := setitem (initial_conditions self) phi_s (Scalar 0),
             variables := setitem (variables self)
                (side @ '' electrode current density'') (Negate (Gradient phi_s)) \<rparr>))"

definition reference_thermal_set_differential_system ::
  "expr \<Rightarrow> submodel \<Rightarrow> variables_dict \<Rightarrow> reactions_dict \<Rightarrow> unit method_result" where
  "reference_thermal_set_differential_system T self vars reactions =
     (Inr (), self\<lparr> rhs := [(T, Divergence (Gradient T))],
                    boundary_conditions := [(T, [(''left'', Scalar 0), (''right'', Scalar 0)])],
                    initial_conditions := [(T, Scalar 0)] \<rparr>)"

definition reference_collaborators :: collaborators where
  "reference_collaborators = \<lparr>
     standard_parameters_lithium_ion = reference_parameters,
     standard_variables_c_s_n = Variable ''c_s_n'' [''negative particle''],
     standard_variables_c_s_p = Variable ''c_s_p'' [''positive particle''],
     standard_variables_c_e = Concatenation [
       Variable ''c_e_n'' [''negative electrode''],
       Variable ''c_e_s'' [''separator''],
       Variable ''c_e_p'' [''positive electrode'']],
     standard_variables_phi_e = Concatenation [
       Variable ''phi_e_n'' [''negative electrode''],
       Variable ''phi_e_s'' [''separator''],
       Variable ''phi_e_p'' [''positive electrode'']],
     standard_variables_phi_s_p = Variable ''phi_s_p'' [''positive electrode''],
     standard_variables_phi_s_n = Variable ''phi_s_n'' [''negative electrode''],
     standard_variables_T =
       Variable ''T'' [''negative electrode'', ''separator'', ''positive electrode''],
     standard_variables_T_av = Variable ''T_av'' [],
     base_model_options =
       (\<lambda>options_arg. case options_arg of None \<Rightarrow> [(''thermal'', ''off'')] | Some d \<Rightarrow> d),
     get_exchange_current_densities =
       (\<lambda>c_e c_s_surf. on_success (multiply c_e c_s_surf) (\<lambda>m. Inr (FunctionParameter ''j0'' m))),
     get_butler_volmer =
       (\<lambda>j0 eta_r. on_success (multiply j0 eta_r) (\<lambda>m. Inr (FunctionParameter ''butler_volmer'' m))),
     get_derived_interfacial_currents = (\<lambda>j_n j_p j0_n j0_p. Inr [
       (''Negative electrode interfacial current density'', j_n),
       (''Positive electrode interfacial current density'', j_p),
       (''Negative electrode exchange-current density'', j0_n),
       (''Positive electrode exchange-current density'', j0_p)]),
     particle_set_differential_system = reference_particle_set_differential_system,
     electrolyte_diffusion_set_differential_system =
       reference_electrolyte_diffusion_set_differential_system,
     electrode_set_algebraic_system = reference_electrode_set_algebraic_system,
     electrode_get_variables = (\<lambda>self phi_s_n phi_s_p i_s_n i_s_p.
       (Inr [(''Terminal voltage'', Subtraction (Average phi_s_p) (Average phi_s_n))],
        self)),
     thermal_set_full_differential_system =
       reference_thermal_set_differential_system
         (Variable ''T'' [''negative electrode'', ''separator'', ''positive electrode'']),
     thermal_set_x_lumped_differential_system =
       reference_thermal_set_differential_system (Variable ''T_av'' []),
     get_derived_open_circuit_potentials = (\<lambda>ocp_n ocp_p. Inr [
       (''Average negative electrode open circuit potential'', Average ocp_n),
       (''Average positive electrode open circuit potential'', Average ocp_p)]),
     get_derived_reaction_overpotentials = (\<lambda>eta_r_n eta_r_p. Inr [
       (''Average negative reaction overpotential'', Average eta_r_n),
       (''Average positive reaction overpotential'', Average eta_r_p)]) \<rparr>"

text \<open>Concrete inputs: an electrolyte potential, a concentration and a reaction dictionary.\<close>

definition reference_phi_e :: expr where
  "reference_phi_e = Concatenation [
     Variable ''phi_e_n'' [''negative electrode''],
     Variable ''phi_e_s'' [''separator''],
     Variable ''phi_e_p'' [''positive electrode'']]"

definition reference_c_e :: expr where
  "reference_c_e = Concatenation [
     Variable ''c_e_n'' [''negative electrode''],
     Variable ''c_e_s'' [''separator''],
     Variable ''c_e_p'' [''positive electrode'']]"

definition reference_reactions :: reactions_dict where
  "reference_reactions =
     [(''main'', [(''neg'', [(''s_plus'', Scalar 1), (''aj'', Variable ''j_n'' [''negative electrode''])]),
                  (''pos'', [(''s_plus'', Scalar 1), (''aj'', Variable ''j_p'' [''positive electrode''])])])]"

text \<open>
  A concrete assembly state in which each submodel section can be run: a fresh model with
  thermal option \<^verbatim>\<open>off\<close> that holds the electrolyte concentration and the two electrode
  potentials.
\<close>

definition reference_assembly :: assembly where
  "reference_assembly = \<lparr>
     the_model = \<lparr> variables = [
         (''Electrolyte concentration'', reference_c_e),
         (''Negative electrode potential'', Variable ''phi_s_n'' [''negative electrode'']),
         (''Positive electrode potential'', Variable ''phi_s_p'' [''positive electrode''])],
       rhs = [], algebraic = [], boundary_conditions = [], initial_conditions = [],
       events = [], default_solver = None,
       name = ''Doyle-Fuller-Newman model'', options = [(''thermal'', ''off'')] \<rparr>,
     merge_points = [], lifecycle = [] \<rparr>"

section \<open>Properties of electrolyte\_current.py\<close>

lemma unpack3_length: "length xs = 3 \<Longrightarrow> \<exists>a b c. xs = [a, b, c]"
  by (cases xs rule: unpack3.cases) auto

lemma unpack3_other_length: "length xs \<noteq> 3 \<Longrightarrow> \<exists>msg. unpack3 xs = Inl (ValueError msg)"
  by (cases xs rule: unpack3.cases) auto

lemma binary_operator_left: "domain x = [] \<Longrightarrow> binary_operator node x y = Inr (node x y)"
  by (simp add: binary_operator_def)

lemmas operator_defs = add_def subtract_def multiply_def divide_def power_def

lemma get_variables_state: "snd (get_variables self phi_e i_e eta_e_av) = self"
  by (simp add: get_variables_def Let_def split: sum.splits prod.splits)

lemma get_variables_three_orphans:
  assumes "orphans phi_e = [a, b, c]"
  shows "\<exists>vs. get_variables self phi_e i_e eta_e_av = (Inr vs, self)"
  using assms
  by (simp add: get_variables_def Let_def on_success_def operator_defs binary_operator_left)

lemma concatenation_cell_parts:
  assumes "domain a = [''negative electrode'']" "domain b = [''separator'']"
      "domain c = [''positive electrode'']"
  shows "concatenation [a, b, c] = Inr (Concatenation [a, b, c])"
  using assms
  by (simp add: concatenation_def sort_key_def domain_rank_def cell_block_def cell_blocks_def Let_def)

lemma concatenation_domain:
  assumes "concatenation parts = Inr j"
  shows "cell_block (domain j)"
  using assms by (auto simp: concatenation_def Let_def split: if_splits)

lemma reference_parameters_fields:
  "param_potential_scale reference_parameters = ''potential_scale''"
  "param_U_n_ref reference_parameters = ''U_n_ref''"
  "param_i_typ reference_parameters = ''i_typ''"
  "param_kappa_e reference_parameters = ''kappa_e''"
  "param_chi reference_parameters = ''chi''"
  "param_epsilon reference_parameters = Concatenation [
       Broadcast (Parameter ''epsilon_n'') [''negative electrode''],
       Broadcast (Parameter ''epsilon_s'') [''separator''],
       Broadcast (Parameter ''epsilon_p'') [''positive electrode'']]"
  "param_b reference_parameters = ''b''"
  "param_gamma_e reference_parameters = ''gamma_e''"
  "param_C_e reference_parameters = ''C_e''"
  "param_U_n reference_parameters = ''U_n''"
  "param_U_p reference_parameters = ''U_p''"
  "param_c_n_init reference_parameters = ''c_n_init''"
  "param_l_n reference_parameters = ''l_n''"
  "param_l_p reference_parameters = ''l_p''"
  "param_current_with_time reference_parameters = ''current_with_time''"
  "param_voltage_low_cut reference_parameters = ''voltage_low_cut''"
  by (simp_all add: reference_parameters_def)

text \<open>
  C10, as amended. For every pair of domain-less inputs \<open>ocp_n\<close>, \<open>eta_r_n\<close> (the values
  that the broadcasts of lines 176-178 accept), \<^verbatim>\<open>get_explicit_leading_order\<close> returns a
  mapping, leaving the submodel as it was, in which the average electrolyte ohmic losses
  and the average concentration overpotential are the scalar zero and the average
  electrolyte overpotential is their sum, the node \<open>Scalar 0 + Scalar 0\<close>, whose value is
  zero.
\<close>

theorem leading_order_overpotentials_zero:
  assumes "domain ocp_n = []" and "domain eta_r_n = []"
  shows "\<exists>vs. get_explicit_leading_order self ocp_n eta_r_n = (Inr vs, self)
     \<and> getitem vs ''Average electrolyte ohmic losses'' = Inr (Scalar 0)
     \<and> getitem vs ''Average concentration overpotential'' = Inr (Scalar 0)
     \<and> getitem vs ''Average electrolyte overpotential'' = Inr (Addition (Scalar 0) (Scalar 0))
     \<and> scalar_value (Addition (Scalar 0) (Scalar 0)) = Some 0"
  using assms
  by (simp add: get_explicit_leading_order_def get_variables_def
      get_split_electrolyte_overpotential_def orphans_def dict_update_def setitem_def
      getitem_def Let_def on_success_def operator_defs binary_operator_def broadcast_def
      concatenation_def sort_key_def domain_rank_def cell_block_def cell_blocks_def
      standard_spatial_vars_x_n_def standard_spatial_vars_x_p_def)

text \<open>
  The hypotheses of C10 hold for the open-circuit potential of a surface concentration
  taken without domain and a domain-less overpotential.
\<close>

theorem leading_order_overpotentials_zero_witness:
  "domain (FunctionParameter ''U_n'' (Surf (Variable ''c_s_n'' [''negative particle'']) False)) = []
   \<and> domain (Parameter ''eta_r_n'') = []
   \<and> (\<exists>vs. get_explicit_leading_order (SubModel reference_parameters)
             (FunctionParameter ''U_n'' (Surf (Variable ''c_s_n'' [''negative particle'']) False))
             (Parameter ''eta_r_n'') = (Inr vs, SubModel reference_parameters)
          \<and> getitem vs ''Average electrolyte overpotential'' = Inr (Addition (Scalar 0) (Scalar 0)))"
  using leading_order_overpotentials_zero[of
      "FunctionParameter ''U_n'' (Surf (Variable ''c_s_n'' [''negative particle'']) False)"
      "Parameter ''eta_r_n''" "SubModel reference_parameters"]
  by auto

text \<open>
  C10 as stated fails: for an \<open>ocp_n\<close> on the negative electrode and an \<open>eta_r_n\<close> on the
  positive electrode the subtraction \<^verbatim>\<open>-ocp_n - eta_r_n\<close> of line 175 raises DomainError, and
  the call returns no mapping.
\<close>

theorem leading_order_incompatible_domains:
  "get_explicit_leading_order (SubModel reference_parameters)
     (Variable ''ocp_n'' [''negative electrode'']) (Variable ''eta_r_n'' [''positive electrode''])
   = (Inl (DomainError ''children domains do not match''), SubModel reference_parameters)"
  by (simp add: get_explicit_leading_order_def Let_def on_success_def operator_defs
      binary_operator_def)

lemma on_success_Inr: "on_success (Inr x) f = f x"
  by (simp add: on_success_def)

lemma average_spatial:
  "spatial_domain (domain e) \<Longrightarrow> average e = Inr (average_node e)"
  by (simp add: average_def)

lemma average_node_domain: "domain (average_node e) = []"
  by (cases e rule: average_node.cases) simp_all

lemma set_algebraic_system_default_epsilon:
  "set_algebraic_system self phi_e c_e reactions None
     = set_algebraic_system self phi_e c_e reactions (Some (param_epsilon (set_of_parameters self)))"
  unfolding set_algebraic_system_def Let_def option.case ..

lemma MacInnes_equation:
  assumes j: "cell_block (domain j)"
      and c: "domain c_e = domain j" and p: "domain phi_e = domain j"
      and e: "domain eps = [] \<or> domain eps = domain j"
  shows "on_success (power eps (Parameter (param_b param))) (\<lambda>eps_b.
          on_success (multiply (FunctionParameter (param_kappa_e param) c_e) eps_b) (\<lambda>k1.
          on_success (multiply k1 (Parameter (param_gamma_e param))) (\<lambda>k2.
          on_success (divide k2 (Parameter (param_C_e param))) (\<lambda>conductivity.
          on_success (grad c_e) (\<lambda>grad_c_e.
          on_success (multiply (FunctionParameter (param_chi param) c_e) grad_c_e) (\<lambda>d1.
          on_success (divide d1 c_e) (\<lambda>d2.
          on_success (grad phi_e) (\<lambda>grad_phi_e.
          on_success (subtract d2 grad_phi_e) (\<lambda>driving.
          multiply conductivity driving))))))))) = Inr (MacInnes_flux param phi_e c_e eps)"
    and "on_success (div_expr (MacInnes_flux param phi_e c_e eps)) (\<lambda>div_i_e. subtract div_i_e j)
          = Inr (Subtraction (Divergence (MacInnes_flux param phi_e c_e eps)) j)"
proof -
  have s: "spatial_domain (domain j)" and n: "domain j \<noteq> []"
    using j by (auto simp: spatial_domain_def cell_block_def cell_blocks_def)
  show "on_success (power eps (Parameter (param_b param))) (\<lambda>eps_b.
          on_success (multiply (FunctionParameter (param_kappa_e param) c_e) eps_b) (\<lambda>k1.
          on_success (multiply k1 (Parameter (param_gamma_e param))) (\<lambda>k2.
          on_success (divide k2 (Parameter (param_C_e param))) (\<lambda>conductivity.
          on_success (grad c_e) (\<lambda>grad_c_e.
          on_success (multiply (FunctionParameter (param_chi param) c_e) grad_c_e) (\<lambda>d1.
          on_success (divide d1 c_e) (\<lambda>d2.
          on_success (grad phi_e) (\<lambda>grad_phi_e.
          on_success (subtract d2 grad_phi_e) (\<lambda>driving.
          multiply conductivity driving))))))))) = Inr (MacInnes_flux param phi_e c_e eps)"
    using e s n c p
    by (elim disjE)
       (simp_all add: on_success_def operator_defs binary_operator_def grad_def MacInnes_flux_def)
  show "on_success (div_expr (MacInnes_flux param phi_e c_e eps)) (\<lambda>div_i_e. subtract div_i_e j)
          = Inr (Subtraction (Divergence (MacInnes_flux param phi_e c_e eps)) j)"
    using e s n c p
    by (elim disjE)
       (simp_all add: on_success_def operator_defs binary_operator_def div_expr_def MacInnes_flux_def)
qed

text \<open>
  C2, as amended. Let the reaction dictionary hold \<^verbatim>\<open>reactions["main"]["neg"]["aj"]\<close> and
  \<^verbatim>\<open>reactions["main"]["pos"]["aj"]\<close>, let the concatenation of line 117 accept the two
  entries around the separator broadcast and give \<open>j\<close>, let \<open>phi_e\<close> and \<open>c_e\<close> be defined
  over the domain of \<open>j\<close>, and let the porosity (the argument \<open>epsilon\<close>, or
  \<^verbatim>\<open>param.epsilon\<close> when it is omitted) be domain-less or defined over that domain. Then a
  call of \<^verbatim>\<open>set_algebraic_system\<close> leaves the submodel with \<open>algebraic\<close> holding exactly the
  key \<open>phi_e\<close>, mapped to \<open>div(i_e) - j\<close>, with the boundary conditions of the flux \<open>i_e\<close>
  set to left 0 and right 0, with the initial guess \<open>-U_n(c_n_init)\<close> for \<open>phi_e\<close> and with
  an empty \<open>rhs\<close>. For every input a call without \<open>epsilon\<close> is the call with
  \<open>epsilon = param.epsilon\<close>. The four assignments precede the unpacking of
  \<^verbatim>\<open>phi_e.orphans\<close>; when \<open>phi_e\<close> has three orphans of which the first and the third can be
  averaged, the call returns without raising.
\<close>

theorem set_algebraic_system_populates:
  assumes "getitem reactions ''main'' = Inr main"
      and "getitem main ''neg'' = Inr neg" and "getitem neg ''aj'' = Inr j_n"
      and "getitem main ''pos'' = Inr pos" and "getitem pos ''aj'' = Inr j_p"
      and "concatenation [j_n, Broadcast (Scalar 0) [''separator''], j_p] = Inr j"
      and "domain c_e = domain j" and "domain phi_e = domain j"
      and "eps = (case epsilon of None \<Rightarrow> param_epsilon (set_of_parameters self) | Some x \<Rightarrow> x)"
      and "domain eps = [] \<or> domain eps = domain j"
  shows "let param = set_of_parameters self;
             i_e = MacInnes_flux param phi_e c_e eps;
             (r, self') = set_algebraic_system self phi_e c_e reactions epsilon
         in algebraic self' = [(phi_e, Subtraction (Divergence i_e) j)]
          \<and> boundary_conditions self' = [(i_e, [(''left'', Scalar 0), (''right'', Scalar 0)])]
          \<and> initial_conditions self'
              = [(phi_e, Negate (FunctionParameter (param_U_n param) (Parameter (param_c_n_init param))))]
          \<and> rhs self' = []
          \<and> set_algebraic_system self phi_e c_e reactions None
              = set_algebraic_system self phi_e c_e reactions (Some (param_epsilon param))
          \<and> (\<forall>a b c. orphans phi_e = [a, b, c] \<longrightarrow> spatial_domain (domain a) \<longrightarrow>
                 spatial_domain (domain c) \<longrightarrow> r = Inr ())"
proof -
  let ?param = "set_of_parameters self"
  let ?i_e = "MacInnes_flux ?param phi_e c_e eps"
  have j: "cell_block (domain j)" using assms(6) by (rule concatenation_domain)
  note eq = MacInnes_equation[OF j assms(7) assms(8) assms(10), of ?param]
  have b: "broadcast (Scalar 0) [''separator''] = Inr (Broadcast (Scalar 0) [''separator''])"
    by (simp add: broadcast_def)
  have head: "set_algebraic_system self phi_e c_e reactions epsilon =
    (let self4 = self\<lparr> algebraic := [(phi_e, Subtraction (Divergence ?i_e) j)],
                       boundary_conditions := [(?i_e, [(''left'', Scalar 0), (''right'', Scalar 0)])],
                       initial_conditions := [(phi_e, Negate (FunctionParameter (param_U_n ?param)
                                      (Parameter (param_c_n_init ?param))))],
                       rhs := [] \<rparr>
     in (case unpack3 (orphans phi_e) of
           Inl e \<Rightarrow> (Inl e, self4)
         | Inr (phi_e_n, phi_e_s, phi_e_p) \<Rightarrow>
        (case on_success (average phi_e_n) (\<lambda>phi_e_n_av.
              on_success (average phi_e_p) (\<lambda>phi_e_p_av.
              subtract phi_e_p_av phi_e_n_av)) of
           Inl e \<Rightarrow> (Inl e, self4)
         | Inr eta_e_av \<Rightarrow>
        (case get_variables self4 phi_e ?i_e eta_e_av of
           (Inl e, self5) \<Rightarrow> (Inl e, self5)
         | (Inr vs, self5) \<Rightarrow>
             (Inr (), self5\<lparr> variables := vs,
                             default_solver := Some ScikitsDaeSolver \<rparr>)))))"
    unfolding set_algebraic_system_def Let_def
    by (simp add: assms(1-6) assms(9)[symmetric] eq b on_success_Inr)
  show ?thesis
  proof (cases "unpack3 (orphans phi_e)")
    case (Inl e)
    then have "length (orphans phi_e) \<noteq> 3"
      using unpack3_length[of "orphans phi_e"] by auto
    with Inl show ?thesis
      by (auto simp: head Let_def set_algebraic_system_default_epsilon)
  next
    case (Inr t)
    obtain a b c where t: "t = (a, b, c)" by (cases t) auto
    with Inr have o: "orphans phi_e = [a, b, c]"
      by (cases "orphans phi_e" rule: unpack3.cases) auto
    show ?thesis
    proof (cases "on_success (average a) (\<lambda>phi_e_n_av.
              on_success (average c) (\<lambda>phi_e_p_av. subtract phi_e_p_av phi_e_n_av))")
      case (Inl e)
      have "\<not> (spatial_domain (domain a) \<and> spatial_domain (domain c))"
      proof
        assume "spatial_domain (domain a) \<and> spatial_domain (domain c)"
        then have "on_success (average a) (\<lambda>phi_e_n_av.
              on_success (average c) (\<lambda>phi_e_p_av. subtract phi_e_p_av phi_e_n_av))
            = Inr (Subtraction (average_node c) (average_node a))"
          by (simp add: average_spatial on_success_def subtract_def binary_operator_left
              average_node_domain)
        with Inl show False by simp
      qed
      with Inl o show ?thesis
        by (simp add: head Let_def set_algebraic_system_default_epsilon)
    next
      case (Inr eta)
      obtain vs where "get_variables (self\<lparr> algebraic := [(phi_e, Subtraction (Divergence ?i_e) j)],
                       boundary_conditions := [(?i_e, [(''left'', Scalar 0), (''right'', Scalar 0)])],
                       initial_conditions := [(phi_e, Negate (FunctionParameter (param_U_n ?param)
                                      (Parameter (param_c_n_init ?param))))],
                       rhs := [] \<rparr>) phi_e ?i_e eta
          = (Inr vs, self\<lparr> algebraic := [(phi_e, Subtraction (Divergence ?i_e) j)],
                       boundary_conditions := [(?i_e, [(''left'', Scalar 0), (''right'', Scalar 0)])],
                       initial_conditions := [(phi_e, Negate (FunctionParameter (param_U_n ?param)
                                      (Parameter (param_c_n_init ?param))))],
                       rhs := [] \<rparr>)"
        using get_variables_three_orphans[OF o] by blast
      with Inr o show ?thesis
        by (simp add: head Let_def set_algebraic_system_default_epsilon)
    qed
  qed
qed

lemma reference_reaction_entries:
  "getitem reference_reactions ''main'' =
     Inr [(''neg'', [(''s_plus'', Scalar 1), (''aj'', Variable ''j_n'' [''negative electrode''])]),
          (''pos'', [(''s_plus'', Scalar 1), (''aj'', Variable ''j_p'' [''positive electrode''])])]"
  "getitem [(''neg'', [(''s_plus'', Scalar 1), (''aj'', Variable ''j_n'' [''negative electrode''])]),
            (''pos'', [(''s_plus'', Scalar 1), (''aj'', Variable ''j_p'' [''positive electrode''])])]
      ''neg'' = Inr [(''s_plus'', Scalar 1), (''aj'', Variable ''j_n'' [''negative electrode''])]"
  "getitem [(''s_plus'', Scalar 1), (''aj'', Variable ''j_n'' [''negative electrode''])] ''aj''
     = Inr (Variable ''j_n'' [''negative electrode''])"
  "getitem [(''neg'', [(''s_plus'', Scalar 1), (''aj'', Variable ''j_n'' [''negative electrode''])]),
            (''pos'', [(''s_plus'', Scalar 1), (''aj'', Variable ''j_p'' [''positive electrode''])])]
      ''pos'' = Inr [(''s_plus'', Scalar 1), (''aj'', Variable ''j_p'' [''positive electrode''])]"
  "getitem [(''s_plus'', Scalar 1), (''aj'', Variable ''j_p'' [''positive electrode''])] ''aj''
     = Inr (Variable ''j_p'' [''positive electrode''])"
  by (simp_all add: reference_reactions_def getitem_def)

text \<open>
  The hypotheses of C2 hold for the reference inputs: reaction entries on the negative and
  the positive electrode, potential, concentration and porosity over the whole cell. On
  them the call returns.
\<close>

theorem set_algebraic_system_populates_witness:
  "concatenation [Variable ''j_n'' [''negative electrode''], Broadcast (Scalar 0) [''separator''],
                  Variable ''j_p'' [''positive electrode'']]
     = Inr (Concatenation [Variable ''j_n'' [''negative electrode''],
              Broadcast (Scalar 0) [''separator''], Variable ''j_p'' [''positive electrode'']])
   \<and> domain reference_c_e = [''negative electrode'', ''separator'', ''positive electrode'']
   \<and> domain reference_phi_e = [''negative electrode'', ''separator'', ''positive electrode'']
   \<and> domain (param_epsilon reference_parameters)
       = [''negative electrode'', ''separator'', ''positive electrode'']
   \<and> fst (set_algebraic_system (SubModel reference_parameters) reference_phi_e reference_c_e
             reference_reactions None) = Inr ()
   \<and> algebraic (snd (set_algebraic_system (SubModel reference_parameters) reference_phi_e
             reference_c_e reference_reactions None))
       = [(reference_phi_e,
           Subtraction
             (Divergence (MacInnes_flux reference_parameters reference_phi_e reference_c_e
                (param_epsilon reference_parameters)))
             (Concatenation [Variable ''j_n'' [''negative electrode''],
                Broadcast (Scalar 0) [''separator''],
                Variable ''j_p'' [''positive electrode'']]))]
   \<and> rhs (snd (set_algebraic_system (SubModel reference_parameters) reference_phi_e
             reference_c_e reference_reactions None)) = []"
proof -
  let ?j = "Concatenation [Variable ''j_n'' [''negative electrode''],
              Broadcast (Scalar 0) [''separator''], Variable ''j_p'' [''positive electrode'']]"
  have c: "concatenation [Variable ''j_n'' [''negative electrode''],
             Broadcast (Scalar 0) [''separator''], Variable ''j_p'' [''positive electrode'']] = Inr ?j"
    by (simp add: concatenation_cell_parts)
  have dc: "domain reference_c_e = domain ?j" by (simp add: reference_c_e_def)
  have dp: "domain reference_phi_e = domain ?j" by (simp add: reference_phi_e_def)
  have p: "set_of_parameters (SubModel reference_parameters) = reference_parameters"
    by (simp add: SubModel_def)
  have e: "param_epsilon reference_parameters =
      (case None of None \<Rightarrow> param_epsilon (set_of_parameters (SubModel reference_parameters))
       | Some x \<Rightarrow> x)"
    by (simp add: p)
  have de: "domain (param_epsilon reference_parameters) = []
      \<or> domain (param_epsilon reference_parameters) = domain ?j"
    by (simp add: reference_parameters_fields)
  have o: "orphans reference_phi_e = [Variable ''phi_e_n'' [''negative electrode''],
     Variable ''phi_e_s'' [''separator''], Variable ''phi_e_p'' [''positive electrode'']]"
    by (simp add: orphans_def reference_phi_e_def)
  have s: "spatial_domain (domain (Variable ''phi_e_n'' [''negative electrode'']))"
      "spatial_domain (domain (Variable ''phi_e_p'' [''positive electrode'']))"
    by (simp_all add: spatial_domain_def)
  have d: "domain reference_c_e = [''negative electrode'', ''separator'', ''positive electrode'']"
     "domain reference_phi_e = [''negative electrode'', ''separator'', ''positive electrode'']"
     "domain (param_epsilon reference_parameters)
       = [''negative electrode'', ''separator'', ''positive electrode'']"
    by (simp_all add: reference_c_e_def reference_phi_e_def reference_parameters_fields)
  show ?thesis
    using set_algebraic_system_populates[OF reference_reaction_entries c dc dp e de] o s c d
    by (simp add: Let_def p split: prod.splits)
qed

text \<open>
  C2 as stated fails: for a reaction dictionary whose negative entry is tagged with the
  separator, the domain of the broadcast that line 117 puts beside it, the concatenation
  raises DomainError before the first assignment; \<open>algebraic\<close> stays empty and the
  submodel is as it was.
\<close>

theorem set_algebraic_system_overlapping_reactions:
  "set_algebraic_system (SubModel reference_parameters) reference_phi_e reference_c_e
     [(''main'', [(''neg'', [(''s_plus'', Scalar 1), (''aj'', Variable ''j_n'' [''separator''])]),
                  (''pos'', [(''s_plus'', Scalar 1), (''aj'', Variable ''j_p'' [''positive electrode''])])])]
     None
   = (Inl (DomainError ''concatenation domains overlap or are not contiguous''),
      SubModel reference_parameters)
   \<and> algebraic (SubModel reference_parameters) = []"
  by (simp add: set_algebraic_system_def Let_def on_success_def getitem_def broadcast_def
      concatenation_def sort_key_def domain_rank_def cell_block_def cell_blocks_def SubModel_def)

text \<open>
  C7, as amended. \<^verbatim>\<open>get_variables\<close> leaves every field of the submodel unchanged for every
  input, and a second call with the same arguments gives what the first gave. It returns
  a mapping exactly when \<open>phi_e\<close> has three orphans; for any other \<open>phi_e\<close> the unpacking in
  its first statement raises ValueError. The products and sums of its dictionary have a
  domain-less parameter on the left, so none of them raises DomainError.
\<close>

theorem get_variables_pure:
  "snd (get_variables self phi_e i_e eta_e_av) = self
   \<and> get_variables (snd (get_variables self phi_e i_e eta_e_av)) phi_e i_e eta_e_av
       = get_variables self phi_e i_e eta_e_av
   \<and> (length (orphans phi_e) = 3 \<longrightarrow> (\<exists>vs. fst (get_variables self phi_e i_e eta_e_av) = Inr vs))
   \<and> (length (orphans phi_e) \<noteq> 3 \<longrightarrow>
        (\<exists>msg. fst (get_variables self phi_e i_e eta_e_av) = Inl (ValueError msg)))"
proof -
  have 1: "snd (get_variables self phi_e i_e eta_e_av) = self"
    by (rule get_variables_state)
  have 3: "\<exists>vs. fst (get_variables self phi_e i_e eta_e_av) = Inr vs"
    if "length (orphans phi_e) = 3"
  proof -
    from that obtain a b c where "orphans phi_e = [a, b, c]" using unpack3_length by blast
    from get_variables_three_orphans[OF this, of self i_e eta_e_av] show ?thesis by auto
  qed
  have 4: "\<exists>msg. fst (get_variables self phi_e i_e eta_e_av) = Inl (ValueError msg)"
    if "length (orphans phi_e) \<noteq> 3"
  proof -
    from that obtain msg where "unpack3 (orphans phi_e) = Inl (ValueError msg)"
      using unpack3_other_length by blast
    then show ?thesis by (simp add: get_variables_def Let_def)
  qed
  from 1 3 4 show ?thesis by simp
qed

text \<open>Both cases of C7 occur: the reference potential has three orphans, a scalar has none.\<close>

theorem get_variables_pure_witness:
  "length (orphans reference_phi_e) = 3
   \<and> snd (get_variables (SubModel reference_parameters) reference_phi_e (Scalar 0) (Scalar 0))
       = SubModel reference_parameters
   \<and> (\<exists>vs. fst (get_variables (SubModel reference_parameters) reference_phi_e
                (Scalar 0) (Scalar 0)) = Inr vs)
   \<and> length (orphans (Scalar 0)) \<noteq> 3
   \<and> (\<exists>msg. fst (get_variables (SubModel reference_parameters) (Scalar 0)
                (Scalar 0) (Scalar 0)) = Inl (ValueError msg))"
proof -
  have a: "length (orphans reference_phi_e) = 3"
    by (simp add: orphans_def reference_phi_e_def)
  have b: "length (orphans (Scalar 0)) \<noteq> 3"
    by (simp add: orphans_def)
  show ?thesis
    using get_variables_pure[of "SubModel reference_parameters" reference_phi_e "Scalar 0" "Scalar 0"]
      get_variables_pure[of "SubModel reference_parameters" "Scalar 0" "Scalar 0" "Scalar 0"] a b
    by simp
qed

text \<open>
  C7 as stated fails: for a concatenation of two parts \<^verbatim>\<open>get_variables\<close> returns no mapping
  but raises ValueError.
\<close>

theorem get_variables_two_part_potential:
  "fst (get_variables (SubModel reference_parameters)
         (Concatenation [Variable ''phi_e_n'' [''negative electrode''],
                         Variable ''phi_e_s'' [''separator'']])
         (Scalar 0) (Scalar 0))
     = Inl (ValueError ''not enough values to unpack'')"
  by (simp add: get_variables_def orphans_def Let_def)

text \<open>
  C5. For expressions \<open>a\<close>, \<open>b\<close>, \<open>c\<close> tagged negative electrode, separator and positive
  electrode, the orphans of \<open>Concatenation(a, b, c)\<close> are \<open>a\<close>, \<open>b\<close>, \<open>c\<close>: unchanged, in
  this order (so that the three-way unpacking of the source binds them), each with its
  domain tag, and the concatenation spans the three domains in canonical order.
\<close>

theorem concatenation_orphans_round_trip:
  assumes "domain a = [''negative electrode'']"
      and "domain b = [''separator'']"
      and "domain c = [''positive electrode'']"
  shows "orphans (Concatenation [a, b, c]) = [a, b, c]
       \<and> unpack3 (orphans (Concatenation [a, b, c])) = Inr (a, b, c)
       \<and> map domain (orphans (Concatenation [a, b, c]))
           = [[''negative electrode''], [''separator''], [''positive electrode'']]
       \<and> domain (Concatenation [a, b, c])
           = [''negative electrode'', ''separator'', ''positive electrode'']"
  using assms by (simp add: orphans_def)

text \<open>Three expressions of different kinds with the three tags.\<close>

theorem concatenation_orphans_round_trip_witness:
  "domain (Variable ''phi_e_n'' [''negative electrode'']) = [''negative electrode'']
   \<and> domain (Broadcast (Scalar 0) [''separator'']) = [''separator'']
   \<and> domain (Negate (Variable ''phi_e_p'' [''positive electrode''])) = [''positive electrode'']
   \<and> orphans (Concatenation [Variable ''phi_e_n'' [''negative electrode''],
          Broadcast (Scalar 0) [''separator''],
          Negate (Variable ''phi_e_p'' [''positive electrode''])])
       = [Variable ''phi_e_n'' [''negative electrode''],
          Broadcast (Scalar 0) [''separator''],
          Negate (Variable ''phi_e_p'' [''positive electrode''])]"
  using concatenation_orphans_round_trip[of "Variable ''phi_e_n'' [''negative electrode'']"
      "Broadcast (Scalar 0) [''separator'']"
      "Negate (Variable ''phi_e_p'' [''positive electrode''])"]
  by simp

section \<open>Properties of dfn.py\<close>

subsection \<open>Running the statements of the assembly\<close>

lemma and_then_helper:
  "and_then (helper r) g st = (case r of Inl e \<Rightarrow> (Inl e, st) | Inr x \<Rightarrow> g x st)"
  by (simp add: and_then_def helper_def split: sum.splits)

lemma and_then_helper_state:
  "and_then (\<lambda>s. helper (r s) s) g st = (case r st of Inl e \<Rightarrow> (Inl e, st) | Inr x \<Rightarrow> g x st)"
  by (simp add: and_then_def helper_def split: sum.splits)

lemma and_then_self_variable:
  "and_then (self_variable k) g st =
     (case getitem (variables (the_model st)) k of Inl e \<Rightarrow> (Inl e, st) | Inr x \<Rightarrow> g x st)"
  by (simp add: and_then_def self_variable_def split: sum.splits)

lemma and_then_self_option:
  "and_then (self_option k) g st =
     (case getitem (options (the_model st)) k of Inl e \<Rightarrow> (Inl e, st) | Inr x \<Rightarrow> g x st)"
  by (simp add: and_then_def self_option_def split: sum.splits)

lemma and_then_self_variables_update:
  "and_then (self_variables_update d) g st =
     g () (st\<lparr> the_model := (the_model st)\<lparr> variables := dict_update (variables (the_model st)) d \<rparr> \<rparr>)"
  by (simp add: and_then_def self_variables_update_def)

lemma and_then_on_model:
  "and_then (on_model f) g st =
     (case f (the_model st) of (Inl e, m) \<Rightarrow> (Inl e, st\<lparr> the_model := m \<rparr>)
                             | (Inr x, m) \<Rightarrow> g x (st\<lparr> the_model := m \<rparr>))"
  by (simp add: and_then_def on_model_def split: sum.splits prod.splits)

lemma and_then_create:
  "and_then (create i p) g st = g (SubModel p) (st\<lparr> lifecycle := lifecycle st @ [Created i] \<rparr>)"
  by (simp add: and_then_def create_def)

lemma and_then_populate:
  "and_then (populate i m r) g st =
     (case r of (Inl e, sm) \<Rightarrow> (Inl e, st\<lparr> lifecycle := lifecycle st @ [Populated i m] \<rparr>)
              | (Inr u, sm) \<Rightarrow> g sm (st\<lparr> lifecycle := lifecycle st @ [Populated i m] \<rparr>))"
  by (simp add: and_then_def populate_def Let_def split: sum.splits prod.splits)

lemma and_then_populate_state:
  "and_then (\<lambda>s. populate i m (r s) s) g st =
     (case r st of (Inl e, sm) \<Rightarrow> (Inl e, st\<lparr> lifecycle := lifecycle st @ [Populated i m] \<rparr>)
              | (Inr u, sm) \<Rightarrow> g sm (st\<lparr> lifecycle := lifecycle st @ [Populated i m] \<rparr>))"
  by (simp add: and_then_def populate_def Let_def split: sum.splits prod.splits)

lemma and_then_self_update:
  "and_then (self_update i sm) g st =
     (case update (the_model st) sm of
        Inl e \<Rightarrow> (Inl e, st)
      | Inr m \<Rightarrow> g () (st\<lparr> the_model := m, merge_points := merge_points st @ [m],
                               lifecycle := lifecycle st @ [Merged i] \<rparr>))"
  by (simp add: and_then_def self_update_def split: sum.splits)

lemma and_then_assoc: "and_then (and_then f g) h st = and_then f (\<lambda>x. and_then (g x) h) st"
  by (simp add: and_then_def split: sum.splits prod.splits)

lemmas and_then_run = and_then_helper and_then_helper_state and_then_self_variable
  and_then_self_option
  and_then_self_variables_update and_then_on_model and_then_create and_then_populate
  and_then_populate_state and_then_self_update and_then_assoc

subsection \<open>The assembly always raises\<close>

lemma and_then_raises_first:
  assumes "\<And>s. \<exists>e. fst (f s) = Inl e"
  shows "\<exists>e. fst (and_then f g st) = Inl e"
proof -
  obtain e where "fst (f st) = Inl e" using assms by blast
  then show ?thesis by (cases "f st") (simp add: and_then_def)
qed

lemma and_then_raises_second:
  assumes "\<And>x s. \<exists>e. fst (g x s) = Inl e"
  shows "\<exists>e. fst (and_then f g st) = Inl e"
proof (cases "f st")
  case (Pair r st1)
  show ?thesis
  proof (cases r)
    case (Inl e)
    with Pair show ?thesis by (simp add: and_then_def)
  next
    case (Inr x)
    with Pair assms[of x st1] show ?thesis by (simp add: and_then_def)
  qed
qed

lemma electrolyte_current_result:
  "electrolyte_current param reactions st =
     (Inl (TypeError ''set_algebraic_system() missing 1 required positional argument: reactions''),
      st\<lparr> lifecycle := lifecycle st @ [Created ''eleclyte_current_model'',
             Populated ''eleclyte_current_model'' ''set_algebraic_system''] \<rparr>)"
  by (simp add: electrolyte_current_def and_then_run call_set_algebraic_system_def)

lemma electrolyte_current_raises: "\<exists>e. fst (electrolyte_current param reactions s) = Inl e"
  by (simp add: electrolyte_current_result)

lemma DFN_init_raises: "\<exists>e. fst (DFN_init env st) = Inl e"
  unfolding DFN_init_def Let_def
  by ((rule and_then_raises_first, rule electrolyte_current_raises)
      | rule and_then_raises_second | simp only: split_paired_all prod.case)+

lemma DFN_raises: "\<exists>e. DFN env options_arg = Inl e"
proof -
  obtain e where "fst (DFN_run env options_arg) = Inl e"
    unfolding DFN_run_def using DFN_init_raises by blast
  then show ?thesis by (cases "DFN_run env options_arg") (simp add: DFN_def)
qed

subsection \<open>The lifecycle log along the assembly\<close>














subsection \<open>The assembly on the reference collaborators\<close>

lemma reference_collaborators_fields:
  "standard_parameters_lithium_ion reference_collaborators = reference_parameters"
  "standard_variables_c_s_n reference_collaborators = Variable ''c_s_n'' [''negative particle'']"
  "standard_variables_c_s_p reference_collaborators = Variable ''c_s_p'' [''positive particle'']"
  "standard_variables_c_e reference_collaborators = Concatenation [
       Variable ''c_e_n'' [''negative electrode''],
       Variable ''c_e_s'' [''separator''],
       Variable ''c_e_p'' [''positive electrode'']]"
  "standard_variables_phi_e reference_collaborators = Concatenation [
       Variable ''phi_e_n'' [''negative electrode''],
       Variable ''phi_e_s'' [''separator''],
       Variable ''phi_e_p'' [''positive electrode'']]"
  "standard_variables_phi_s_p reference_collaborators = Variable ''phi_s_p'' [''positive electrode'']"
  "standard_variables_phi_s_n reference_collaborators = Variable ''phi_s_n'' [''negative electrode'']"
  "base_model_options reference_collaborators (Some d) = d"
  "get_exchange_current_densities reference_collaborators c_e c_s_surf
     = on_success (multiply c_e c_s_surf) (\<lambda>m. Inr (FunctionParameter ''j0'' m))"
  "get_butler_volmer reference_collaborators j0 eta_r
     = on_success (multiply j0 eta_r) (\<lambda>m. Inr (FunctionParameter ''butler_volmer'' m))"
  "get_derived_interfacial_currents reference_collaborators j_n j_p j0_n j0_p = Inr [
       (''Negative electrode interfacial current density'', j_n),
       (''Positive electrode interfacial current density'', j_p),
       (''Negative electrode exchange-current density'', j0_n),
       (''Positive electrode exchange-current density'', j0_p)]"
  "particle_set_differential_system reference_collaborators
     = reference_particle_set_differential_system"
  "electrolyte_diffusion_set_differential_system reference_collaborators
     = reference_electrolyte_diffusion_set_differential_system"
  "electrode_set_algebraic_system reference_collaborators
     = reference_electrode_set_algebraic_system"
  by (simp_all add: reference_collaborators_def)

lemma and_then_electrolyte_current:
  "and_then (electrolyte_current param reactions) g st =
     (Inl (TypeError ''set_algebraic_system() missing 1 required positional argument: reactions''),
      st\<lparr> lifecycle := lifecycle st @ [Created ''eleclyte_current_model'',
             Populated ''eleclyte_current_model'' ''set_algebraic_system''] \<rparr>)"
  by (simp add: and_then_def electrolyte_current_result)

lemmas run_simps = and_then_run update_def keys_def SubModel_def getitem_def setitem_def
  dict_update_def reference_collaborators_fields reference_parameters_fields

lemma reference_run:
  "case DFN_run reference_collaborators (Some [(''thermal'', ''off'')]) of (r, st) \<Rightarrow>
     r = Inl (TypeError ''set_algebraic_system() missing 1 required positional argument: reactions'')
     \<and> events (the_model st) = []
     \<and> algebraic (the_model st) = []
     \<and> map fst (rhs (the_model st)) =
          [Variable ''c_s_n'' [''negative particle''], Variable ''c_s_p'' [''positive particle''],
            Concatenation [Variable ''c_e_n'' [''negative electrode''],
              Variable ''c_e_s'' [''separator''], Variable ''c_e_p'' [''positive electrode'']]]
     \<and> map (\<lambda>m. (map fst (rhs m), map fst (algebraic m))) (merge_points st) =
         [([Variable ''c_s_n'' [''negative particle'']], []),
          ([Variable ''c_s_n'' [''negative particle''], Variable ''c_s_p'' [''positive particle'']], []),
          ([Variable ''c_s_n'' [''negative particle''], Variable ''c_s_p'' [''positive particle''],
            Concatenation [Variable ''c_e_n'' [''negative electrode''],
              Variable ''c_e_s'' [''separator''], Variable ''c_e_p'' [''positive electrode'']]], [])]
     \<and> lifecycle st = lifecycle_to_line_69"
  by (simp add: DFN_run_def DFN_init_def Let_def run_simps
      set_model_variables_def BaseModel_init_def index_def orphans_def
      on_success_def operator_defs binary_operator_def surf_def electrode_of_particle_def
      particle_models_def electrolyte_diffusion_def and_then_electrolyte_current
      reference_particle_set_differential_system_def
      reference_electrolyte_diffusion_set_differential_system_def lifecycle_to_line_69_def)

subsection \<open>The claims about the assembly\<close>

lemma electrode_models_lifecycle:
  assumes "fst (electrode_models env p reactions st) = Inr sm"
  shows "lifecycle (snd (electrode_models env p reactions st)) = lifecycle st @
     [Created ''electrode_current_model'',
      Populated ''electrode_current_model'' ''set_algebraic_system'',
      Populated ''electrode_current_model'' ''set_algebraic_system'',
      Merged ''electrode_current_model'']"
proof -
  obtain r1 s1 where a: "electrode_set_algebraic_system env (SubModel p)
      (variables (the_model st)) reactions [''negative electrode''] = (r1, s1)"
    by (cases "electrode_set_algebraic_system env (SubModel p)
      (variables (the_model st)) reactions [''negative electrode'']")
  obtain r2 s2 where b: "electrode_set_algebraic_system env s1
      (variables (the_model st)) reactions [''positive electrode''] = (r2, s2)"
    by (cases "electrode_set_algebraic_system env s1
      (variables (the_model st)) reactions [''positive electrode'']")
  show ?thesis
    using assms a b
    by (cases r1; cases r2; cases "update (the_model st) s2")
       (simp_all add: electrode_models_def and_then_run helper_def Let_def)
qed

lemma update_empty: "update m (SubModel p) = Inr m"
  by (simp add: update_def SubModel_def)
lemma thermal_off_merges_fresh:
  assumes "getitem (options (the_model st)) ''thermal'' = Inr t" "t \<noteq> ''full''" "t \<noteq> ''lumped''"
  shows "thermal env p reactions st =
     self_update ''thermal_model'' (SubModel p)
       (st\<lparr> lifecycle := lifecycle st @ [Created ''thermal_model''] \<rparr>)"
  using assms by (simp add: thermal_def and_then_run)

lemma thermal_off:
  assumes "getitem (options (the_model st)) ''thermal'' = Inr t" "t \<noteq> ''full''" "t \<noteq> ''lumped''"
  shows "thermal env p reactions st =
     (Inr (), st\<lparr> merge_points := merge_points st @ [the_model st],
                  lifecycle := lifecycle st @ [Created ''thermal_model'', Merged ''thermal_model''] \<rparr>)"
  using assms by (simp add: thermal_def and_then_run self_update_def update_empty)


text \<open>
  C1. The claim fails on the code. Line 69 of dfn.py calls
  \<^verbatim>\<open>eleclyte_current_model.set_algebraic_system(self.variables, reactions)\<close>: two positional
  arguments for the three parameters \<open>phi_e\<close>, \<open>c_e\<close>, \<open>reactions\<close> that the method
  declares. The binding of the arguments raises TypeError, whatever the variables and the
  reactions are; the electrolyte current section raises it without touching the model, so
  no algebraic system is populated or merged; and the constructor \<^verbatim>\<open>DFN(options)\<close> returns
  no model for any collaborators and any options.
\<close>

theorem electrolyte_current_call_raises:
  "bind_set_algebraic_system [PyVariables vs, PyReactions reactions]
     = Inl (TypeError ''set_algebraic_system() missing 1 required positional argument: reactions'')
   \<and> fst (electrolyte_current param reactions st)
     = Inl (TypeError ''set_algebraic_system() missing 1 required positional argument: reactions'')
   \<and> the_model (snd (electrolyte_current param reactions st)) = the_model st
   \<and> (\<exists>e. DFN env options_arg = Inl e)"
  using DFN_raises[of env options_arg] by (simp add: electrolyte_current_result)

text \<open>
  C6. The claim fails on the code for the same reason as C1: with the configuration
  \<^verbatim>\<open>{"thermal": "off"}\<close> the assembly raises the TypeError of line 69 and returns no
  model. On the reference collaborators every earlier statement succeeds; when the
  exception is raised the events list is still empty, the statement that appends the
  cut-off voltage event (line 113) is never reached.
\<close>

theorem dfn_thermal_off_raises:
  "DFN reference_collaborators (Some [(''thermal'', ''off'')])
     = Inl (TypeError ''set_algebraic_system() missing 1 required positional argument: reactions'')
   \<and> events (the_model (snd (DFN_run reference_collaborators (Some [(''thermal'', ''off'')])))) = []
   \<and> (\<exists>e. DFN env (Some [(''thermal'', ''off'')]) = Inl e)"
  using reference_run DFN_raises[of env "Some [(''thermal'', ''off'')]"]
  by (cases "DFN_run reference_collaborators (Some [(''thermal'', ''off'')])") (simp add: DFN_def)




lemma reference_thermal_option:
  "getitem (options (the_model reference_assembly)) ''thermal'' = Inr ''off''"
  by (simp add: reference_assembly_def getitem_def)

text \<open>
  C9. In the thermal section of \<^verbatim>\<open>DFN.__init__\<close>, when \<^verbatim>\<open>options["thermal"]\<close> is neither
  \<^verbatim>\<open>full\<close> nor \<^verbatim>\<open>lumped\<close>, the section is the merge of the submodel as the constructor
  made it: it has received no \<^verbatim>\<open>set_*_system\<close> call, and its five mappings and its events
  are empty. The merge succeeds and the model after it is the model before it, in every
  field.
\<close>

theorem unpopulated_thermal_merge_is_noop:
  assumes "getitem (options (the_model st)) ''thermal'' = Inr t"
      and "t \<noteq> ''full''" and "t \<noteq> ''lumped''"
  shows "thermal env p reactions st =
           self_update ''thermal_model'' (SubModel p)
             (st\<lparr> lifecycle := lifecycle st @ [Created ''thermal_model''] \<rparr>)
       \<and> fst (thermal env p reactions st) = Inr ()
       \<and> the_model (snd (thermal env p reactions st)) = the_model st
       \<and> lifecycle (snd (thermal env p reactions st))
           = lifecycle st @ [Created ''thermal_model'', Merged ''thermal_model'']
       \<and> update (the_model st) (SubModel p) = Inr (the_model st)
       \<and> variables (SubModel p) = [] \<and> rhs (SubModel p) = [] \<and> algebraic (SubModel p) = []
       \<and> boundary_conditions (SubModel p) = [] \<and> initial_conditions (SubModel p) = []
       \<and> events (SubModel p) = []"
proof -
  have "thermal env p reactions st =
           self_update ''thermal_model'' (SubModel p)
             (st\<lparr> lifecycle := lifecycle st @ [Created ''thermal_model''] \<rparr>)"
    by (rule thermal_off_merges_fresh[OF assms])
  moreover have "fst (thermal env p reactions st) = Inr ()
       \<and> the_model (snd (thermal env p reactions st)) = the_model st
       \<and> lifecycle (snd (thermal env p reactions st))
           = lifecycle st @ [Created ''thermal_model'', Merged ''thermal_model'']"
    using thermal_off[OF assms, of env p reactions] by simp
  moreover have "update (the_model st) (SubModel p) = Inr (the_model st)"
    by (rule update_empty)
  moreover have "variables (SubModel p) = [] \<and> rhs (SubModel p) = [] \<and> algebraic (SubModel p) = []
       \<and> boundary_conditions (SubModel p) = [] \<and> initial_conditions (SubModel p) = []
       \<and> events (SubModel p) = []"
    by (simp add: SubModel_def)
  ultimately show ?thesis by blast
qed

text \<open>The reference state has the thermal option \<^verbatim>\<open>off\<close>.\<close>

theorem unpopulated_thermal_merge_is_noop_witness:
  "getitem (options (the_model reference_assembly)) ''thermal'' = Inr ''off''
   \<and> ''off'' \<noteq> ''full'' \<and> ''off'' \<noteq> ''lumped''
   \<and> fst (thermal reference_collaborators reference_parameters reference_reactions
            reference_assembly) = Inr ()
   \<and> the_model (snd (thermal reference_collaborators reference_parameters reference_reactions
            reference_assembly)) = the_model reference_assembly
   \<and> update (the_model reference_assembly) (SubModel reference_parameters)
       = Inr (the_model reference_assembly)"
proof -
  have ne: "''off'' \<noteq> ''full'' \<and> ''off'' \<noteq> ''lumped''"
    by simp
  show ?thesis
    using unpopulated_thermal_merge_is_noop[OF reference_thermal_option,
        of reference_collaborators reference_parameters reference_reactions]
      reference_thermal_option ne
    by blast
qed

end
